theory Spec2Isabelle
  imports Complex_Main "HOL-Library.AList" "HOL-Library.Char_ord" "HOL-Library.List_Lexorder"
begin

section \<open>Values of the logger\<close>

text \<open>
  The values that reach \<open>UrsusDataLogger._convert_decimals\<close>: what \<open>asdict\<close> yields for the
  three dataclasses and what callers pass as daily metrics. A Python float is opaque to the
  module (the code only tests \<open>isinstance(data, float)\<close> and calls \<open>str\<close> on it), so the type
  of floats is a parameter \<open>'f\<close> and \<open>str\<close> on floats is the parameter \<open>fstr\<close>. A
  \<open>Decimal\<close> is kept as the literal it was constructed from. A dict is an association list
  in insertion order; its keys are strings.
\<close>

datatype 'f pyval =
    PNone
  | PBool bool
  | PInt int
  | PStr string
  | PFloat 'f
  | PDecimal string
  | PList "'f pyval list"
  | PDict "(string \<times> 'f pyval) list"

text \<open>
  \<open>_convert_decimals\<close> (lines 202-210): dict, then list, then float, otherwise the value
  itself.
\<close>

fun convert_decimals :: "('f \<Rightarrow> string) \<Rightarrow> 'f pyval \<Rightarrow> 'f pyval" where
  "convert_decimals fstr (PDict kvs) =
     PDict (map (\<lambda>kv. (fst kv, convert_decimals fstr (snd kv))) kvs)"
| "convert_decimals fstr (PList xs) = PList (map (convert_decimals fstr) xs)"
| "convert_decimals fstr (PFloat f) = PDecimal (fstr f)"
| "convert_decimals fstr v = v"




section \<open>The dataclasses\<close>

text \<open>
  Exceptions the module can meet. \<open>StoreUnavailable\<close> is a transport failure of a call to
  the store, \<open>StoreRejected\<close> a request the store refuses (botocore's \<open>ClientError\<close>).
\<close>

datatype error = TypeError | ValueError | OverflowError | StoreUnavailable | StoreRejected

text \<open>
  \<open>TradeLog\<close>, \<open>StrategyMetric\<close> and \<open>MarketSignal\<close> (lines 29-68) are plain
  \<open>@dataclass\<close> classes: no \<open>__post_init__\<close>, no validator. Python does not enforce the
  annotations, so a field holds any value. The generated \<open>__init__\<close> binds keyword
  arguments: it raises \<open>TypeError\<close> when a field without default is missing or when a
  keyword names no field, and fills the two optional fields with \<open>None\<close>.
\<close>

record 'f TradeLog =
  trade_id :: "'f pyval"
  timestamp :: "'f pyval"
  strategy :: "'f pyval"
  symbol :: "'f pyval"
  action :: "'f pyval"
  quantity :: "'f pyval"
  price :: "'f pyval"
  confidence :: "'f pyval"
  market_signal :: "'f pyval"
  execution_time_ms :: "'f pyval"
  profit_loss :: "'f pyval"
  portfolio_value :: "'f pyval"

record 'f StrategyMetric =
  strategy_id :: "'f pyval"
  timestamp :: "'f pyval"
  win_rate :: "'f pyval"
  total_trades :: "'f pyval"
  profit_loss :: "'f pyval"
  sharpe_ratio :: "'f pyval"
  max_drawdown :: "'f pyval"
  current_positions :: "'f pyval"
  avg_hold_time :: "'f pyval"

record 'f MarketSignal =
  signal_id :: "'f pyval"
  timestamp :: "'f pyval"
  symbol :: "'f pyval"
  signal_type :: "'f pyval"
  strength :: "'f pyval"
  indicators :: "'f pyval"
  news_sentiment :: "'f pyval"
  volume_analysis :: "'f pyval"

definition TradeLog_required :: "string list" where
  "TradeLog_required = [''trade_id'', ''timestamp'', ''strategy'', ''symbol'', ''action'',
     ''quantity'', ''price'', ''confidence'', ''market_signal'', ''execution_time_ms'']"

definition TradeLog_optional :: "string list" where
  "TradeLog_optional = [''profit_loss'', ''portfolio_value'']"

definition StrategyMetric_required :: "string list" where
  "StrategyMetric_required = [''strategy_id'', ''timestamp'', ''win_rate'', ''total_trades'',
     ''profit_loss'', ''sharpe_ratio'', ''max_drawdown'', ''current_positions'',
     ''avg_hold_time'']"

definition MarketSignal_required :: "string list" where
  "MarketSignal_required = [''signal_id'', ''timestamp'', ''symbol'', ''signal_type'',
     ''strength'', ''indicators'']"

definition MarketSignal_optional :: "string list" where
  "MarketSignal_optional = [''news_sentiment'', ''volume_analysis'']"

text \<open>Argument binding of a generated \<open>__init__\<close> called with keyword arguments \<open>kw\<close>.\<close>

definition binds :: "string list \<Rightarrow> string list \<Rightarrow> (string \<rightharpoonup> 'a) \<Rightarrow> bool" where
  "binds required optional kw \<longleftrightarrow>
     list_all (\<lambda>k. kw k \<noteq> None) required \<and> dom kw \<subseteq> set required \<union> set optional"

definition arg :: "(string \<rightharpoonup> 'f pyval) \<Rightarrow> string \<Rightarrow> 'f pyval" where
  "arg kw k = (case kw k of None \<Rightarrow> PNone | Some v \<Rightarrow> v)"

definition TradeLog_init :: "(string \<rightharpoonup> 'f pyval) \<Rightarrow> error + 'f TradeLog" where
  "TradeLog_init kw =
     (if \<not> binds TradeLog_required TradeLog_optional kw then Inl TypeError
      else Inr \<lparr> trade_id = arg kw ''trade_id'', TradeLog.timestamp = arg kw ''timestamp'',
        strategy = arg kw ''strategy'', TradeLog.symbol = arg kw ''symbol'',
        action = arg kw ''action'', quantity = arg kw ''quantity'', price = arg kw ''price'',
        confidence = arg kw ''confidence'', market_signal = arg kw ''market_signal'',
        execution_time_ms = arg kw ''execution_time_ms'',
        TradeLog.profit_loss = arg kw ''profit_loss'',
        portfolio_value = arg kw ''portfolio_value'' \<rparr>)"

definition StrategyMetric_init :: "(string \<rightharpoonup> 'f pyval) \<Rightarrow> error + 'f StrategyMetric" where
  "StrategyMetric_init kw =
     (if \<not> binds StrategyMetric_required [] kw then Inl TypeError
      else Inr \<lparr> strategy_id = arg kw ''strategy_id'',
        StrategyMetric.timestamp = arg kw ''timestamp'', win_rate = arg kw ''win_rate'',
        total_trades = arg kw ''total_trades'',
        StrategyMetric.profit_loss = arg kw ''profit_loss'',
        sharpe_ratio = arg kw ''sharpe_ratio'', max_drawdown = arg kw ''max_drawdown'',
        current_positions = arg kw ''current_positions'',
        avg_hold_time = arg kw ''avg_hold_time'' \<rparr>)"

definition MarketSignal_init :: "(string \<rightharpoonup> 'f pyval) \<Rightarrow> error + 'f MarketSignal" where
  "MarketSignal_init kw =
     (if \<not> binds MarketSignal_required MarketSignal_optional kw then Inl TypeError
      else Inr \<lparr> signal_id = arg kw ''signal_id'', MarketSignal.timestamp = arg kw ''timestamp'',
        MarketSignal.symbol = arg kw ''symbol'', signal_type = arg kw ''signal_type'',
        strength = arg kw ''strength'', indicators = arg kw ''indicators'',
        news_sentiment = arg kw ''news_sentiment'',
        volume_analysis = arg kw ''volume_analysis'' \<rparr>)"

text \<open>\<open>dataclasses.asdict\<close>: the fields in declaration order, values copied.\<close>

definition asdict_TradeLog :: "'f TradeLog \<Rightarrow> 'f pyval" where
  "asdict_TradeLog t = PDict [(''trade_id'', trade_id t), (''timestamp'', TradeLog.timestamp t),
     (''strategy'', strategy t), (''symbol'', TradeLog.symbol t), (''action'', action t),
     (''quantity'', quantity t), (''price'', price t), (''confidence'', confidence t),
     (''market_signal'', market_signal t), (''execution_time_ms'', execution_time_ms t),
     (''profit_loss'', TradeLog.profit_loss t), (''portfolio_value'', portfolio_value t)]"

definition asdict_StrategyMetric :: "'f StrategyMetric \<Rightarrow> 'f pyval" where
  "asdict_StrategyMetric m = PDict [(''strategy_id'', strategy_id m),
     (''timestamp'', StrategyMetric.timestamp m), (''win_rate'', win_rate m),
     (''total_trades'', total_trades m), (''profit_loss'', StrategyMetric.profit_loss m),
     (''sharpe_ratio'', sharpe_ratio m), (''max_drawdown'', max_drawdown m),
     (''current_positions'', current_positions m), (''avg_hold_time'', avg_hold_time m)]"

definition asdict_MarketSignal :: "'f MarketSignal \<Rightarrow> 'f pyval" where
  "asdict_MarketSignal g = PDict [(''signal_id'', signal_id g),
     (''timestamp'', MarketSignal.timestamp g), (''symbol'', MarketSignal.symbol g),
     (''signal_type'', signal_type g), (''strength'', strength g),
     (''indicators'', indicators g), (''news_sentiment'', news_sentiment g),
     (''volume_analysis'', volume_analysis g)]"

section \<open>The store as the module sees it\<close>

text \<open>
  The DynamoDB tables are outside the repository; the module reaches them through boto3's
  \<open>Table\<close> objects. What the claims need of them is modelled here. A table has a key
  schema (the partition key and, possibly, a sort key, each with its declared type: string,
  number or binary; they are fixed when the table is created, elsewhere, so every theorem
  takes them as given) and its items. \<open>number\<close> is how boto3 and the store take a
  number: for an int or a \<open>Decimal\<close> it is \<open>None\<close> when the serializer refuses the value
  (more than 38 significant digits, an exponent out of range, NaN, Infinity), and else the
  literal of the \<open>Decimal\<close> that reading the number back gives. \<open>rows\<close> keeps every item
  as it was handed over. Environment assumptions: a batch request that is accepted stores
  all its items (no \<open>UnprocessedItems\<close>), a query or scan answers in one page, and no
  limit on sizes or throughput is met.
\<close>

type_synonym 'f item = "(string \<times> 'f pyval) list"

datatype keytype = KeyS | KeyN | KeyB

record 'f table =
  hash_key :: string
  hash_type :: keytype
  range_key :: "string option"
  range_type :: keytype
  number :: "'f pyval \<Rightarrow> string option"
  rows :: "'f item list"

text \<open>
  What boto3's serializer makes of a value, as it is read back: a float is refused
  (\<open>TypeError\<close>), an int or a \<open>Decimal\<close> becomes a number, which is read back as a
  \<open>Decimal\<close>, and everything else is kept. \<open>None\<close> is the refusal.
\<close>

fun wire :: "('f pyval \<Rightarrow> string option) \<Rightarrow> 'f pyval \<Rightarrow> 'f pyval option" where
  "wire num (PDict kvs) =
     map_option PDict (those (map (\<lambda>kv. map_option (Pair (fst kv)) (wire num (snd kv))) kvs))"
| "wire num (PList xs) = map_option PList (those (map (wire num) xs))"
| "wire num (PFloat f) = None"
| "wire num (PInt i) = map_option PDecimal (num (PInt i))"
| "wire num (PDecimal d) = map_option PDecimal (num (PDecimal d))"
| "wire num v = Some v"

definition wire_item :: "('f pyval \<Rightarrow> string option) \<Rightarrow> 'f item \<Rightarrow> 'f item option" where
  "wire_item num it = those (map (\<lambda>kv. map_option (Pair (fst kv)) (wire num (snd kv))) it)"

definition serializes :: "'f table \<Rightarrow> 'f pyval \<Rightarrow> bool" where
  "serializes t v = (case v of PDict it \<Rightarrow> wire_item (number t) it \<noteq> None | _ \<Rightarrow> False)"

text \<open>
  A key attribute must be there and of the declared type; a string key must not be empty.
  The module has no values of binary type.
\<close>

fun fits :: "keytype \<Rightarrow> 'f pyval option \<Rightarrow> bool" where
  "fits KeyS (Some (PStr str)) = (str \<noteq> [])"
| "fits KeyN (Some (PDecimal d)) = True"
| "fits ty v = False"

definition key_of :: "'f table \<Rightarrow> 'f item \<Rightarrow> 'f pyval option \<times> 'f pyval option" where
  "key_of t it =
     (case wire_item (number t) it of
        None \<Rightarrow> (None, None)
      | Some w \<Rightarrow> (map_of w (hash_key t),
          (case range_key t of None \<Rightarrow> None | Some r \<Rightarrow> map_of w r)))"

definition has_key :: "'f table \<Rightarrow> 'f item \<Rightarrow> bool" where
  "has_key t it =
     (case wire_item (number t) it of
        None \<Rightarrow> False
      | Some w \<Rightarrow> fits (hash_type t) (map_of w (hash_key t)) \<and>
          (case range_key t of None \<Rightarrow> True | Some r \<Rightarrow> fits (range_type t) (map_of w r)))"

definition upsert :: "'f table \<Rightarrow> 'f item \<Rightarrow> 'f table" where
  "upsert t it = t\<lparr>rows := filter (\<lambda>r. key_of t r \<noteq> key_of t it) (rows t) @ [it]\<rparr>"

text \<open>
  \<open>Table.put_item(Item=item)\<close>: the item is serialized, sent, and checked by the store
  against the key schema. The flag \<open>up\<close> says whether the round trip to the store
  succeeded.
\<close>

definition put_item :: "bool \<Rightarrow> 'f table \<Rightarrow> 'f pyval \<Rightarrow> error + 'f table" where
  "put_item up t v =
     (case v of
        PDict it \<Rightarrow>
          (if wire_item (number t) it = None then Inl TypeError
           else if \<not> up then Inl StoreUnavailable
           else if \<not> has_key t it then Inl StoreRejected
           else Inr (upsert t it))
      | _ \<Rightarrow> Inl TypeError)"

text \<open>
  The \<open>BatchWriteItem\<close> request that a batch writer sends: refused as a whole when an
  item does not fit the key schema or when two items of the request have the same key.
\<close>

definition item_of :: "'f pyval \<Rightarrow> 'f item option" where
  "item_of v = (case v of PDict it \<Rightarrow> Some it | _ \<Rightarrow> None)"

definition batch_write_item :: "bool \<Rightarrow> 'f table \<Rightarrow> 'f pyval list \<Rightarrow> error + 'f table" where
  "batch_write_item up t vs =
     (case those (map item_of vs) of
        None \<Rightarrow> Inl TypeError
      | Some its \<Rightarrow>
          (if \<not> list_all (\<lambda>it. wire_item (number t) it \<noteq> None) its then Inl TypeError
           else if \<not> up then Inl StoreUnavailable
           else if \<not> list_all (has_key t) its \<or> \<not> distinct (map (key_of t) its)
             then Inl StoreRejected
           else Inr (fold (\<lambda>it t'. upsert t' it) its t)))"

text \<open>An item as a read gives it back: its numbers are \<open>Decimal\<close>s.\<close>

definition read_back :: "'f table \<Rightarrow> 'f item \<Rightarrow> 'f pyval" where
  "read_back t it = (case wire_item (number t) it of None \<Rightarrow> PDict it | Some w \<Rightarrow> PDict w)"

text \<open>
  \<open>Table.query\<close> with the key condition \<open>Key(hk).eq(hv) & Key(rk).between(lo, hi)\<close>
  on strings: the condition must name the table's own partition and sort key, both of
  string type; the answer is sorted by the sort key, ascending. Strings compare as
  DynamoDB compares them, byte by byte.
\<close>

definition sort_value :: "string \<Rightarrow> 'f item \<Rightarrow> string" where
  "sort_value rk it = (case map_of it rk of Some (PStr ts) \<Rightarrow> ts | _ \<Rightarrow> [])"

definition in_range :: "string \<Rightarrow> string \<Rightarrow> string \<Rightarrow> 'f item \<Rightarrow> bool" where
  "in_range rk lo hi it =
     (case map_of it rk of Some (PStr ts) \<Rightarrow> lo \<le> ts \<and> ts \<le> hi | _ \<Rightarrow> False)"

definition query :: "bool \<Rightarrow> 'f table \<Rightarrow> string \<Rightarrow> 'f pyval \<Rightarrow> string \<Rightarrow> string \<Rightarrow> string
    \<Rightarrow> error + 'f item" where
  "query up t hk hv rk lo hi =
     (if \<not> up then Inl StoreUnavailable
      else if hash_key t \<noteq> hk \<or> range_key t \<noteq> Some rk
          \<or> hash_type t \<noteq> KeyS \<or> range_type t \<noteq> KeyS then Inl StoreRejected
      else (let found = sort_key (sort_value rk)
                  (filter (\<lambda>it. map_of it hk = Some hv \<and> in_range rk lo hi it) (rows t))
            in Inr [(''Items'', PList (map (read_back t) found)),
                    (''Count'', PInt (int (length found)))]))"

text \<open>\<open>Table.scan\<close> with the filter \<open>Attr(a).gte(cutoff)\<close>.\<close>

definition at_least :: "string \<Rightarrow> string \<Rightarrow> 'f item \<Rightarrow> bool" where
  "at_least a cutoff it = (case map_of it a of Some (PStr ts) \<Rightarrow> cutoff \<le> ts | _ \<Rightarrow> False)"

definition scan :: "bool \<Rightarrow> 'f table \<Rightarrow> string \<Rightarrow> string \<Rightarrow> error + 'f item" where
  "scan up t a cutoff =
     (if \<not> up then Inl StoreUnavailable
      else (let found = filter (at_least a cutoff) (rows t)
            in Inr [(''Items'', PList (map (read_back t) found)),
                    (''Count'', PInt (int (length found)))]))"

text \<open>\<open>response.get(k, d)\<close>.\<close>

definition get_default :: "'f item \<Rightarrow> string \<Rightarrow> 'f pyval \<Rightarrow> 'f pyval" where
  "get_default d k dflt = (case map_of d k of None \<Rightarrow> dflt | Some v \<Rightarrow> v)"

section \<open>The logger\<close>

text \<open>
  The fields of \<open>UrsusDataLogger\<close> that the methods use, with the part of the world they
  act on: the four tables, the clock that \<open>datetime.now(timezone.utc)\<close> reads
  (microseconds since 0001-01-01T00:00:00 UTC) and \<open>outages\<close>, which says for each coming
  round trip to the store whether it fails (none fails once the list is used up).
  \<open>sent\<close> is a trace: the number of items of each \<open>BatchWriteItem\<close> call made so
  far. The log records written through \<open>logging\<close> are not modelled.
\<close>

record 'f logger =
  trade_logs_table :: "'f table"
  strategy_metrics_table :: "'f table"
  market_signals_table :: "'f table"
  performance_table :: "'f table"
  outages :: "bool list"
  sent :: "nat list"
  clock :: int
  data_queue :: "'f pyval list"
  batch_size :: nat
  flush_interval :: nat
  running :: bool

text \<open>
  \<open>__init__\<close> (lines 73-99): the tables are only named, the queue is created empty, the
  worker thread is started.
\<close>

definition init :: "'f table \<Rightarrow> 'f table \<Rightarrow> 'f table \<Rightarrow> 'f table \<Rightarrow> bool list \<Rightarrow> int \<Rightarrow> 'f logger" where
  "init trades metrics signals perf out now =
     \<lparr> trade_logs_table = trades, strategy_metrics_table = metrics,
       market_signals_table = signals, performance_table = perf, outages = out, sent = [], clock = now,
       data_queue = [],
       batch_size = 25, flush_interval = 30, running = True \<rparr>"

definition round_trip :: "'f logger \<Rightarrow> bool \<times> 'f logger" where
  "round_trip s = (case outages s of [] \<Rightarrow> (True, s) | b # bs \<Rightarrow> (\<not> b, s\<lparr>outages := bs\<rparr>))"

text \<open>
  The round trip of a request that carries the items \<open>vs\<close> to the table \<open>t\<close>: boto3
  serializes the items first and sends nothing when that fails.
\<close>

definition request :: "'f table \<Rightarrow> 'f pyval list \<Rightarrow> 'f logger \<Rightarrow> bool \<times> 'f logger" where
  "request t vs s = (if list_all (serializes t) vs then round_trip s else (False, s))"

text \<open>\<open>log_trade\<close>, \<open>log_strategy_metrics\<close>, \<open>log_market_signal\<close> (lines 101-132).\<close>

definition log_trade :: "('f \<Rightarrow> string) \<Rightarrow> 'f TradeLog \<Rightarrow> 'f logger \<Rightarrow> bool \<times> 'f logger" where
  "log_trade fstr trade s =
     (let item = convert_decimals fstr (asdict_TradeLog trade);
          (up, s1) = request (trade_logs_table s) [item] s
      in case put_item up (trade_logs_table s1) item of
           Inl e \<Rightarrow> (False, s1)
         | Inr t \<Rightarrow> (True, s1\<lparr>trade_logs_table := t\<rparr>))"

definition log_strategy_metrics ::
    "('f \<Rightarrow> string) \<Rightarrow> 'f StrategyMetric \<Rightarrow> 'f logger \<Rightarrow> bool \<times> 'f logger" where
  "log_strategy_metrics fstr metrics s =
     (let item = convert_decimals fstr (asdict_StrategyMetric metrics);
          (up, s1) = request (strategy_metrics_table s) [item] s
      in case put_item up (strategy_metrics_table s1) item of
           Inl e \<Rightarrow> (False, s1)
         | Inr t \<Rightarrow> (True, s1\<lparr>strategy_metrics_table := t\<rparr>))"

definition log_market_signal ::
    "('f \<Rightarrow> string) \<Rightarrow> 'f MarketSignal \<Rightarrow> 'f logger \<Rightarrow> bool \<times> 'f logger" where
  "log_market_signal fstr signal s =
     (let item = convert_decimals fstr (asdict_MarketSignal signal);
          (up, s1) = request (market_signals_table s) [item] s
      in case put_item up (market_signals_table s1) item of
           Inl e \<Rightarrow> (False, s1)
         | Inr t \<Rightarrow> (True, s1\<lparr>market_signals_table := t\<rparr>))"

text \<open>
  \<open>log_daily_performance\<close> (lines 134-148). The dict display inserts its entries from left
  to right: a key that is already there keeps its place and takes the new value. \<open>**\<close>
  of something that is no mapping raises \<open>TypeError\<close>. \<open>isoformat\<close> is \<open>datetime.isoformat\<close>.
\<close>

definition daily_item :: "('f \<Rightarrow> string) \<Rightarrow> string \<Rightarrow> 'f pyval \<Rightarrow> string \<Rightarrow> error + 'f pyval" where
  "daily_item fstr date metrics now_iso =
     (case convert_decimals fstr metrics of
        PDict kvs \<Rightarrow>
          Inr (PDict (AList.update ''Timestamp'' (PStr now_iso)
                 (fold (\<lambda>kv d. AList.update (fst kv) (snd kv) d) kvs
                    [(''MetricType'', PStr ''DAILY_PERFORMANCE''), (''Date'', PStr date)])))
      | _ \<Rightarrow> Inl TypeError)"

definition log_daily_performance ::
    "('f \<Rightarrow> string) \<Rightarrow> (int \<Rightarrow> string) \<Rightarrow> string \<Rightarrow> 'f pyval \<Rightarrow> 'f logger \<Rightarrow> bool \<times> 'f logger" where
  "log_daily_performance fstr isoformat date metrics s =
     (case daily_item fstr date metrics (isoformat (clock s)) of
        Inl e \<Rightarrow> (False, s)
      | Inr item \<Rightarrow>
          (let (up, s1) = request (performance_table s) [item] s
           in case put_item up (performance_table s1) item of
                Inl e \<Rightarrow> (False, s1)
              | Inr t \<Rightarrow> (True, s1\<lparr>performance_table := t\<rparr>)))"

text \<open>
  boto3's batch writer on the trade table, as \<open>batch_log_trades\<close> uses it: \<open>put_item\<close>
  appends to the buffer and flushes once 25 items are buffered; a flush takes up to 25 items
  off the buffer and sends them in one request; leaving the \<open>with\<close> block flushes until
  the buffer is empty.
\<close>

definition bw_flush :: "'f pyval list \<Rightarrow> 'f logger \<Rightarrow> (error + unit) \<times> 'f pyval list \<times> 'f logger" where
  "bw_flush buf s =
     (let items_to_send = take 25 buf;
          rest = drop 25 buf;
          (up, s1) = request (trade_logs_table s) items_to_send
                       (s\<lparr>sent := sent s @ [length items_to_send]\<rparr>)
      in case batch_write_item up (trade_logs_table s1) items_to_send of
           Inl e \<Rightarrow> (Inl e, rest, s1)
         | Inr t \<Rightarrow> (Inr (), rest, s1\<lparr>trade_logs_table := t\<rparr>))"

definition bw_put_item :: "'f pyval list \<Rightarrow> 'f pyval \<Rightarrow> 'f logger
    \<Rightarrow> (error + unit) \<times> 'f pyval list \<times> 'f logger" where
  "bw_put_item buf item s =
     (if 25 \<le> length (buf @ [item]) then bw_flush (buf @ [item]) s
      else (Inr (), buf @ [item], s))"

function bw_exit :: "'f pyval list \<Rightarrow> 'f logger \<Rightarrow> (error + unit) \<times> 'f logger" where
  "bw_exit buf s =
     (if buf = [] then (Inr (), s)
      else (case bw_flush buf s of
              (Inl e, buf', s') \<Rightarrow> (Inl e, s')
            | (Inr u, buf', s') \<Rightarrow> bw_exit buf' s'))"
  by pat_completeness auto
termination
  by (relation "measure (\<lambda>(buf, s). length buf)")
     (auto simp: bw_flush_def Let_def split: prod.splits sum.splits)

text \<open>
  \<open>batch_log_trades\<close> (lines 150-167). The inner loop puts the trades of one batch and
  counts each put that returns; an exception leaves the loop, the writer is left (which
  flushes what is buffered), and the handler only logs. The outer loop takes the trades
  \<open>batch_size\<close> at a time; \<open>range\<close> with step 0 raises \<open>ValueError\<close>, outside the
  \<open>try\<close>.
\<close>

fun batch_log_trades_inner :: "('f \<Rightarrow> string) \<Rightarrow> 'f TradeLog list \<Rightarrow> 'f pyval list \<Rightarrow> 'f logger
    \<Rightarrow> nat \<Rightarrow> (error + unit) \<times> 'f pyval list \<times> 'f logger \<times> nat" where
  "batch_log_trades_inner fstr [] buf s success_count = (Inr (), buf, s, success_count)"
| "batch_log_trades_inner fstr (trade # batch) buf s success_count =
     (let item = convert_decimals fstr (asdict_TradeLog trade)
      in case bw_put_item buf item s of
           (Inl e, buf', s') \<Rightarrow> (Inl e, buf', s', success_count)
         | (Inr u, buf', s') \<Rightarrow> batch_log_trades_inner fstr batch buf' s' (success_count + 1))"

definition batch_log_trades_batch :: "('f \<Rightarrow> string) \<Rightarrow> 'f TradeLog list \<Rightarrow> 'f logger \<Rightarrow> nat
    \<Rightarrow> nat \<times> 'f logger" where
  "batch_log_trades_batch fstr batch s success_count =
     (case batch_log_trades_inner fstr batch [] s success_count of
        (r, buf, s1, success_count') \<Rightarrow>
          (case bw_exit buf s1 of (r', s2) \<Rightarrow> (success_count', s2)))"

function batch_log_trades_outer :: "('f \<Rightarrow> string) \<Rightarrow> nat \<Rightarrow> 'f TradeLog list \<Rightarrow> 'f logger \<Rightarrow> nat
    \<Rightarrow> nat \<times> 'f logger" where
  "batch_log_trades_outer fstr n trades s success_count =
     (if trades = [] \<or> n = 0 then (success_count, s)
      else (case batch_log_trades_batch fstr (take n trades) s success_count of
              (success_count', s') \<Rightarrow>
                batch_log_trades_outer fstr n (drop n trades) s' success_count'))"
  by pat_completeness auto
termination
  by (relation "measure (\<lambda>(fstr, n, trades, s, c). length trades)") auto

definition batch_log_trades :: "('f \<Rightarrow> string) \<Rightarrow> 'f TradeLog list \<Rightarrow> 'f logger
    \<Rightarrow> (error + nat) \<times> 'f logger" where
  "batch_log_trades fstr trades s =
     (if batch_size s = 0 then (Inl ValueError, s)
      else (case batch_log_trades_outer fstr (batch_size s) trades s 0 of
              (success_count, s') \<Rightarrow> (Inr success_count, s')))"

text \<open>
  Time. \<open>timedelta\<close> of a number of microseconds raises \<open>OverflowError\<close> beyond
  999999999 days; a \<open>datetime\<close> lies between year 1 and year 9999.
\<close>

definition timedelta :: "int \<Rightarrow> error + int" where
  "timedelta us =
     (if us div 86400000000 < - 999999999 \<or> 999999999 < us div 86400000000
      then Inl OverflowError else Inr us)"

definition datetime_max :: int where
  "datetime_max = 315537897599999999"

definition datetime_sub :: "int \<Rightarrow> int \<Rightarrow> error + int" where
  "datetime_sub t d =
     (if t - d < 0 \<or> datetime_max < t - d then Inl OverflowError else Inr (t - d))"

text \<open>
  \<open>get_strategy_performance\<close> (lines 169-186) and \<open>get_recent_trades\<close> (lines 188-200):
  the body of the \<open>try\<close> first, then the method with its handler, which returns \<open>[]\<close>.
  A method that returns gives \<open>Inr\<close>; \<open>Inl\<close> would be an exception reaching the caller.
\<close>

definition get_strategy_performance_try :: "(int \<Rightarrow> string) \<Rightarrow> string \<Rightarrow> int \<Rightarrow> 'f logger
    \<Rightarrow> (error + 'f pyval) \<times> 'f logger" where
  "get_strategy_performance_try isoformat sid days s =
     (let end_date = clock s
      in case timedelta (days * 86400000000) of
           Inl e \<Rightarrow> (Inl e, s)
         | Inr delta \<Rightarrow>
             (case datetime_sub end_date delta of
                Inl e \<Rightarrow> (Inl e, s)
              | Inr start_date \<Rightarrow>
                  (let (up, s1) = round_trip s
                   in case query up (strategy_metrics_table s1) ''StrategyId'' (PStr sid)
                             ''Timestamp'' (isoformat start_date) (isoformat end_date) of
                        Inl e \<Rightarrow> (Inl e, s1)
                      | Inr response \<Rightarrow> (Inr (get_default response ''Items'' (PList [])), s1))))"

definition get_strategy_performance :: "(int \<Rightarrow> string) \<Rightarrow> string \<Rightarrow> int \<Rightarrow> 'f logger
    \<Rightarrow> (error + 'f pyval) \<times> 'f logger" where
  "get_strategy_performance isoformat sid days s =
     (case get_strategy_performance_try isoformat sid days s of
        (Inl e, s') \<Rightarrow> (Inr (PList []), s')
      | (Inr items, s') \<Rightarrow> (Inr items, s'))"

definition get_recent_trades_try :: "(int \<Rightarrow> string) \<Rightarrow> int \<Rightarrow> 'f logger
    \<Rightarrow> (error + 'f pyval) \<times> 'f logger" where
  "get_recent_trades_try isoformat hours s =
     (case timedelta (hours * 3600000000) of
        Inl e \<Rightarrow> (Inl e, s)
      | Inr delta \<Rightarrow>
          (case datetime_sub (clock s) delta of
             Inl e \<Rightarrow> (Inl e, s)
           | Inr cutoff_time \<Rightarrow>
               (let (up, s1) = round_trip s
                in case scan up (trade_logs_table s1) ''timestamp'' (isoformat cutoff_time) of
                     Inl e \<Rightarrow> (Inl e, s1)
                   | Inr response \<Rightarrow> (Inr (get_default response ''Items'' (PList [])), s1))))"

definition get_recent_trades :: "(int \<Rightarrow> string) \<Rightarrow> int \<Rightarrow> 'f logger
    \<Rightarrow> (error + 'f pyval) \<times> 'f logger" where
  "get_recent_trades isoformat hours s =
     (case get_recent_trades_try isoformat hours s of
        (Inl e, s') \<Rightarrow> (Inr (PList []), s')
      | (Inr items, s') \<Rightarrow> (Inr items, s'))"

text \<open>
  \<open>_batch_processor\<close> (lines 212-220): one turn of the loop sleeps for the flush interval
  and does nothing else. \<open>batch_processor n\<close> is the worker after at most \<open>n\<close> turns; it
  stops as soon as \<open>running\<close> is cleared.
\<close>

definition batch_processor_turn :: "'f logger \<Rightarrow> 'f logger" where
  "batch_processor_turn s = s\<lparr>clock := clock s + int (flush_interval s) * 1000000\<rparr>"

fun batch_processor :: "nat \<Rightarrow> 'f logger \<Rightarrow> 'f logger" where
  "batch_processor 0 s = s"
| "batch_processor (Suc n) s =
     (if running s then batch_processor n (batch_processor_turn s) else s)"

text \<open>\<open>shutdown\<close> (lines 222-227).\<close>

definition shutdown :: "'f logger \<Rightarrow> 'f logger" where
  "shutdown s = s\<lparr>running := False\<rparr>"

text \<open>
  What can happen to a logger: a call of one of its public methods, or some turns of its
  worker thread in between.
\<close>

datatype 'f call =
    LogTrade "'f TradeLog"
  | LogStrategyMetrics "'f StrategyMetric"
  | LogMarketSignal "'f MarketSignal"
  | LogDailyPerformance string "'f pyval"
  | BatchLogTrades "'f TradeLog list"
  | GetStrategyPerformance string int
  | GetRecentTrades int
  | Shutdown
  | Worker nat

fun perform :: "('f \<Rightarrow> string) \<Rightarrow> (int \<Rightarrow> string) \<Rightarrow> 'f call \<Rightarrow> 'f logger \<Rightarrow> 'f logger" where
  "perform fstr isoformat (LogTrade t) s = snd (log_trade fstr t s)"
| "perform fstr isoformat (LogStrategyMetrics m) s = snd (log_strategy_metrics fstr m s)"
| "perform fstr isoformat (LogMarketSignal g) s = snd (log_market_signal fstr g s)"
| "perform fstr isoformat (LogDailyPerformance date metrics) s =
     snd (log_daily_performance fstr isoformat date metrics s)"
| "perform fstr isoformat (BatchLogTrades ts) s = snd (batch_log_trades fstr ts s)"
| "perform fstr isoformat (GetStrategyPerformance sid days) s =
     snd (get_strategy_performance isoformat sid days s)"
| "perform fstr isoformat (GetRecentTrades hours) s = snd (get_recent_trades isoformat hours s)"
| "perform fstr isoformat Shutdown s = shutdown s"
| "perform fstr isoformat (Worker n) s = batch_processor n s"

definition perform_all :: "('f \<Rightarrow> string) \<Rightarrow> (int \<Rightarrow> string) \<Rightarrow> 'f call list \<Rightarrow> 'f logger
    \<Rightarrow> 'f logger" where
  "perform_all fstr isoformat cs s = fold (perform fstr isoformat) cs s"

section \<open>Sample data\<close>

text \<open>
  The values of \<open>simulate_ursus_trading\<close> (lines 235-264), for the worked examples. There
  the floats are rationals, and \<open>sample_str\<close> is what \<open>str\<close> prints for them.
\<close>

definition sample_str :: "rat \<Rightarrow> string" where
  "sample_str x =
     (if x = 100.0 then ''100.0'' else if x = 245.50 then ''245.5''
      else if x = 0.85 then ''0.85'' else if x = 150.5 then ''150.5''
      else if x = 50000.0 then ''50000.0'' else if x = 0.68 then ''0.68''
      else if x = 2750.50 then ''2750.5'' else if x = 1.85 then ''1.85''
      else if x = 0.12 then ''0.12'' else if x = 4.5 then ''4.5'' else ''0.0'')"

definition sample_now :: int where
  "sample_now = 63887659200000000"

text \<open>
  \<open>isoformat\<close> at the instants of the examples: \<open>sample_now\<close>, one day and seven days
  before it.
\<close>

definition sample_isoformat :: "int \<Rightarrow> string" where
  "sample_isoformat t =
     (if t = 63887659200000000 then ''2025-07-09T12:00:00+00:00''
      else if t = 63887572800000000 then ''2025-07-08T12:00:00+00:00''
      else if t = 63887054400000000 then ''2025-07-02T12:00:00+00:00''
      else ''0001-01-01T00:00:00+00:00'')"

definition sample_trade_kwargs :: "string \<rightharpoonup> rat pyval" where
  "sample_trade_kwargs = map_of
     [(''trade_id'', PStr ''T1''), (''timestamp'', PStr ''2025-07-09T12:00:00+00:00''),
      (''strategy'', PStr ''ursus_momentum_v1''), (''symbol'', PStr ''TSLA''),
      (''action'', PStr ''BUY''), (''quantity'', PFloat 100.0), (''price'', PFloat 245.50),
      (''confidence'', PFloat 0.85), (''market_signal'', PStr ''BULLISH_MOMENTUM''),
      (''execution_time_ms'', PFloat 150.5), (''portfolio_value'', PFloat 50000.0)]"

text \<open>
  The numbers of the examples as the store takes them: trailing zeros are trimmed. An
  empty table has keys of string type and takes these numbers.
\<close>

definition sample_number :: "'f pyval \<Rightarrow> string option" where
  "sample_number v =
     (case v of
        PInt i \<Rightarrow> (if i = 45 then Some ''45'' else if i = 3 then Some ''3'' else None)
      | PDecimal d \<Rightarrow>
          (if d = ''100.0'' then Some ''100'' else if d = ''50000.0'' then Some ''50000''
           else if d \<in> set [''245.5'', ''0.85'', ''150.5'', ''0.68'', ''2750.5'', ''1.85'',
             ''0.12'', ''4.5''] then Some d else None)
      | _ \<Rightarrow> None)"

definition empty_table :: "string \<Rightarrow> string option \<Rightarrow> 'f table" where
  "empty_table hk rk = \<lparr> hash_key = hk, hash_type = KeyS, range_key = rk, range_type = KeyS,
     number = sample_number, rows = [] \<rparr>"

text \<open>
  A logger on four empty tables, keyed by the attributes the module writes, at
  \<open>sample_now\<close>; \<open>out\<close> are the outages to come.
\<close>

definition sample_logger :: "bool list \<Rightarrow> rat logger" where
  "sample_logger out =
     init (empty_table ''trade_id'' None) (empty_table ''strategy_id'' (Some ''timestamp''))
       (empty_table ''signal_id'' None) (empty_table ''MetricType'' (Some ''Date''))
       out sample_now"

definition sample_trade :: "rat TradeLog" where
  "sample_trade =
     \<lparr> trade_id = PStr ''T1'', TradeLog.timestamp = PStr ''2025-07-09T12:00:00+00:00'',
       strategy = PStr ''ursus_momentum_v1'', TradeLog.symbol = PStr ''TSLA'',
       action = PStr ''BUY'', quantity = PFloat 100.0, price = PFloat 245.50,
       confidence = PFloat 0.85, market_signal = PStr ''BULLISH_MOMENTUM'',
       execution_time_ms = PFloat 150.5, TradeLog.profit_loss = PNone,
       portfolio_value = PFloat 50000.0 \<rparr>"

definition sample_metrics :: "(string \<times> rat pyval) list" where
  "sample_metrics = [(''MetricType'', PStr ''INTRADAY''), (''Timestamp'', PStr ''yesterday''),
     (''pnl'', PFloat 245.50)]"

definition sample_metric :: "rat StrategyMetric" where
  "sample_metric =
     \<lparr> strategy_id = PStr ''ursus_momentum_v1'',
       StrategyMetric.timestamp = PStr ''2025-07-08T12:00:00+00:00'',
       win_rate = PFloat 0.68, total_trades = PInt 45,
       StrategyMetric.profit_loss = PFloat 2750.50, sharpe_ratio = PFloat 1.85,
       max_drawdown = PFloat 0.12, current_positions = PInt 3, avg_hold_time = PFloat 4.5 \<rparr>"

text \<open>The sample logger with the strategy metrics table keyed by \<open>hk\<close> and \<open>rk\<close>.\<close>

definition sample_logger_keyed :: "string \<Rightarrow> string \<Rightarrow> rat logger" where
  "sample_logger_keyed hk rk =
     (sample_logger [])\<lparr>strategy_metrics_table := empty_table hk (Some rk)\<rparr>"

text \<open>
  A state in which \<open>get_strategy_performance\<close> can find nothing: a strategy metrics
  table whose partition key is the \<open>StrategyId\<close> of the query has no items.
\<close>

definition unreadable :: "'f logger \<Rightarrow> bool" where
  "unreadable s \<longleftrightarrow> (hash_key (strategy_metrics_table s) = ''StrategyId''
      \<longrightarrow> rows (strategy_metrics_table s) = [])"

section \<open>Normalization\<close>


lemma fold_max_above: "(b::nat) \<le> fold max ns b"
  by (induction ns arbitrary: b) (auto intro: order_trans[OF max.cobounded2])

lemma fold_max_ge: "x \<in> set ns \<Longrightarrow> x \<le> fold max ns (a::nat)"
proof (induction ns arbitrary: a)
  case Nil
  then show ?case by simp
next
  case (Cons n ns)
  show ?case
  proof (cases "x = n")
    case True
    then show ?thesis using fold_max_above[of "max n a" ns] by simp
  next
    case False
    then show ?thesis using Cons by simp
  qed
qed

text \<open>
  C1. Normalization goes by cases: a dict comes back as a dict with the same keys in the
  same order and every value normalized; a list comes back as a list of the same length
  with every element normalized in place; a float becomes the \<open>Decimal\<close> built from the
  string \<open>str\<close> gives for it; \<open>None\<close>, booleans, integers, strings and decimals come back
  unchanged.
\<close>

theorem convert_decimals_cases:
  "(\<exists>kvs'. convert_decimals fstr (PDict kvs) = PDict kvs' \<and> map fst kvs' = map fst kvs
      \<and> length kvs' = length kvs
      \<and> (\<forall>i < length kvs. snd (kvs' ! i) = convert_decimals fstr (snd (kvs ! i))))
   \<and> (\<exists>ys. convert_decimals fstr (PList xs) = PList ys \<and> length ys = length xs
      \<and> (\<forall>i < length xs. ys ! i = convert_decimals fstr (xs ! i)))
   \<and> convert_decimals fstr (PFloat f) = PDecimal (fstr f)
   \<and> convert_decimals fstr PNone = PNone
   \<and> convert_decimals fstr (PBool b) = PBool b
   \<and> convert_decimals fstr (PInt i) = PInt i
   \<and> convert_decimals fstr (PStr str) = PStr str
   \<and> convert_decimals fstr (PDecimal d) = PDecimal d"
  by (simp add: comp_def)

theorem convert_decimals_cases_witness:
  "convert_decimals sample_str (PFloat 245.50) = PDecimal ''245.5''
   \<and> (\<exists>kvs'. convert_decimals sample_str
          (PDict [(''price'', PFloat 245.50), (''action'', PStr ''BUY'')]) = PDict kvs'
        \<and> map fst kvs' = [''price'', ''action'']
        \<and> snd (kvs' ! 0) = PDecimal ''245.5'' \<and> snd (kvs' ! 1) = PStr ''BUY'')
   \<and> (\<exists>ys. convert_decimals sample_str (PList [PFloat 0.85, PInt 45]) = PList ys
        \<and> length ys = 2 \<and> ys ! 0 = PDecimal ''0.85'' \<and> ys ! 1 = PInt 45)"
  using convert_decimals_cases [of sample_str
      "[(''price'', PFloat 245.50), (''action'', PStr ''BUY'')]" "[PFloat 0.85, PInt 45]" "245.50"]
  by (simp add: sample_str_def)

text \<open>
  C5. Normalization is idempotent: normalizing a normalized value changes nothing; a
  \<open>Decimal\<close> passes through a second application unchanged.
\<close>

theorem convert_decimals_idempotent:
  "convert_decimals fstr (convert_decimals fstr v) = convert_decimals fstr v
   \<and> convert_decimals fstr (PDecimal d) = PDecimal d"
  by (induction fstr v rule: convert_decimals.induct) simp_all

theorem convert_decimals_idempotent_witness:
  "convert_decimals sample_str (PList [PDecimal ''245.5'', PDict [(''rsi'', PDecimal ''0.85'')]])
     = PList [PDecimal ''245.5'', PDict [(''rsi'', PDecimal ''0.85'')]]"
  using convert_decimals_idempotent
    [of sample_str "PList [PFloat 245.50, PDict [(''rsi'', PFloat 0.85)]]"]
  by (simp add: sample_str_def)







section \<open>Construction of the records\<close>

lemma binds_Some: "binds req opt kw \<Longrightarrow> k \<in> set req \<Longrightarrow> kw k = Some (arg kw k)"
  by (auto simp: binds_def arg_def list_all_iff)

text \<open>
  The claim C2 as the spec words it (construction fails when \<open>action\<close> is outside its
  enumerated set or a \<open>[0,1]\<close> field is out of range) does not hold of the code: a
  \<open>TradeLog\<close> with action \<open>DANCE\<close> and confidence \<open>7.5\<close> is constructed.
\<close>

theorem TradeLog_init_unvalidated_counterexample:
  "TradeLog_init
     (sample_trade_kwargs(''action'' \<mapsto> PStr ''DANCE'', ''confidence'' \<mapsto> PFloat 7.5))
   = Inr \<lparr> trade_id = PStr ''T1'', TradeLog.timestamp = PStr ''2025-07-09T12:00:00+00:00'',
       strategy = PStr ''ursus_momentum_v1'', TradeLog.symbol = PStr ''TSLA'',
       action = PStr ''DANCE'', quantity = PFloat 100.0, price = PFloat 245.50,
       confidence = PFloat 7.5, market_signal = PStr ''BULLISH_MOMENTUM'',
       execution_time_ms = PFloat 150.5, TradeLog.profit_loss = PNone,
       portfolio_value = PFloat 50000.0 \<rparr>"
  by (simp add: TradeLog_init_def binds_def arg_def sample_trade_kwargs_def
      TradeLog_required_def TradeLog_optional_def)

text \<open>
  C2, amended. Constructing a record checks the argument list and nothing else: it fails,
  with \<open>TypeError\<close>, exactly when the keyword arguments do not bind (a required field is
  missing or a keyword names no field); otherwise it succeeds whatever the values are, and
  \<open>action\<close>, \<open>signal_type\<close>, \<open>confidence\<close>, \<open>win_rate\<close> and \<open>strength\<close> hold the
  values that were passed. Construction is a function of its arguments alone.
\<close>

theorem dataclass_init_accepts_any_value:
  "(binds TradeLog_required TradeLog_optional kw \<longrightarrow>
      (\<exists>t. TradeLog_init kw = Inr t \<and> kw ''action'' = Some (action t)
         \<and> kw ''confidence'' = Some (confidence t)))
   \<and> (\<not> binds TradeLog_required TradeLog_optional kw \<longrightarrow> TradeLog_init kw = Inl TypeError)
   \<and> (binds StrategyMetric_required [] kw \<longrightarrow>
      (\<exists>m. StrategyMetric_init kw = Inr m \<and> kw ''win_rate'' = Some (win_rate m)))
   \<and> (\<not> binds StrategyMetric_required [] kw \<longrightarrow> StrategyMetric_init kw = Inl TypeError)
   \<and> (binds MarketSignal_required MarketSignal_optional kw \<longrightarrow>
      (\<exists>g. MarketSignal_init kw = Inr g \<and> kw ''signal_type'' = Some (signal_type g)
         \<and> kw ''strength'' = Some (strength g)))
   \<and> (\<not> binds MarketSignal_required MarketSignal_optional kw \<longrightarrow>
      MarketSignal_init kw = Inl TypeError)"
proof -
  have t: "kw ''action'' = Some (arg kw ''action'')
      \<and> kw ''confidence'' = Some (arg kw ''confidence'')"
    if "binds TradeLog_required TradeLog_optional kw"
    using binds_Some[OF that] by (simp add: TradeLog_required_def)
  have m: "kw ''win_rate'' = Some (arg kw ''win_rate'')"
    if "binds StrategyMetric_required [] kw"
    using binds_Some[OF that] by (simp add: StrategyMetric_required_def)
  have g: "kw ''signal_type'' = Some (arg kw ''signal_type'')
      \<and> kw ''strength'' = Some (arg kw ''strength'')"
    if "binds MarketSignal_required MarketSignal_optional kw"
    using binds_Some[OF that] by (simp add: MarketSignal_required_def)
  show ?thesis
    using t m g by (simp add: TradeLog_init_def StrategyMetric_init_def MarketSignal_init_def)
qed

theorem dataclass_init_accepts_any_value_witness:
  "binds TradeLog_required TradeLog_optional
     (sample_trade_kwargs(''confidence'' \<mapsto> PFloat 7.5))
   \<and> (\<exists>t. TradeLog_init (sample_trade_kwargs(''confidence'' \<mapsto> PFloat 7.5)) = Inr t
        \<and> action t = PStr ''BUY'' \<and> confidence t = PFloat 7.5)
   \<and> \<not> binds MarketSignal_required MarketSignal_optional
         (sample_trade_kwargs(''confidence'' \<mapsto> PFloat 7.5))
   \<and> MarketSignal_init (sample_trade_kwargs(''confidence'' \<mapsto> PFloat 7.5)) = Inl TypeError"
proof -
  have b: "binds TradeLog_required TradeLog_optional
      (sample_trade_kwargs(''confidence'' \<mapsto> PFloat 7.5))"
    by (simp add: binds_def sample_trade_kwargs_def TradeLog_required_def TradeLog_optional_def)
  have n: "\<not> binds MarketSignal_required MarketSignal_optional
      (sample_trade_kwargs(''confidence'' \<mapsto> PFloat 7.5))"
    by (simp add: binds_def sample_trade_kwargs_def MarketSignal_required_def)
  have v: "(sample_trade_kwargs(''confidence'' \<mapsto> PFloat 7.5)) ''action'' = Some (PStr ''BUY'')"
    "(sample_trade_kwargs(''confidence'' \<mapsto> PFloat 7.5)) ''confidence'' = Some (PFloat 7.5)"
    by (simp_all add: sample_trade_kwargs_def)
  show ?thesis
    using b n v
      dataclass_init_accepts_any_value [of "sample_trade_kwargs(''confidence'' \<mapsto> PFloat 7.5)"]
    by auto
qed

section \<open>The read accessors\<close>

lemma round_trip_frame:
  "round_trip s = (up, s1) \<Longrightarrow>
     trade_logs_table s1 = trade_logs_table s \<and>
     strategy_metrics_table s1 = strategy_metrics_table s \<and>
     market_signals_table s1 = market_signals_table s \<and>
     performance_table s1 = performance_table s \<and>
     sent s1 = sent s \<and> clock s1 = clock s \<and> data_queue s1 = data_queue s \<and>
     batch_size s1 = batch_size s \<and> flush_interval s1 = flush_interval s \<and>
     running s1 = running s"
  by (auto simp: round_trip_def split: list.splits)

text \<open>
  The claim C3 as the spec words it (an unreachable store makes the accessor propagate
  \<open>StoreUnavailableError\<close>) does not hold of the code: with the store down at the call,
  the body of \<open>get_recent_trades\<close> raises and the method returns the empty list.
\<close>

theorem get_recent_trades_swallows_counterexample:
  "fst (get_recent_trades_try sample_isoformat 24 (sample_logger [True])) = Inl StoreUnavailable
   \<and> fst (get_recent_trades sample_isoformat 24 (sample_logger [True])) = Inr (PList [])"
  by (simp add: get_recent_trades_def get_recent_trades_try_def sample_logger_def init_def
      timedelta_def datetime_sub_def datetime_max_def round_trip_def scan_def sample_now_def)

text \<open>
  C3, amended. Both read accessors always return a value and never raise: when the store
  is reachable and no record matches they return the empty list, and when the store cannot
  be reached at the call their handler catches the error and they return the empty list
  as well.
\<close>

theorem read_accessors_never_raise:
  "(\<exists>items s'. get_strategy_performance isoformat sid days s = (Inr items, s'))
   \<and> (\<exists>items s'. get_recent_trades isoformat hours s = (Inr items, s'))
   \<and> (\<not> fst (round_trip s) \<longrightarrow>
        fst (get_strategy_performance isoformat sid days s) = Inr (PList [])
        \<and> fst (get_recent_trades isoformat hours s) = Inr (PList []))
   \<and> (filter (\<lambda>it. map_of it ''StrategyId'' = Some (PStr sid)
            \<and> in_range ''Timestamp'' (isoformat (clock s - days * 86400000000))
                 (isoformat (clock s)) it) (rows (strategy_metrics_table s)) = [] \<longrightarrow>
        fst (get_strategy_performance isoformat sid days s) = Inr (PList []))
   \<and> (filter (at_least ''timestamp'' (isoformat (clock s - hours * 3600000000)))
          (rows (trade_logs_table s)) = [] \<longrightarrow>
        fst (get_recent_trades isoformat hours s) = Inr (PList []))"
proof -
  obtain up s1 where rt: "round_trip s = (up, s1)" by (cases "round_trip s")
  note s1 = round_trip_frame[OF rt]
  have a: "\<exists>items s'. get_strategy_performance isoformat sid days s = (Inr items, s')"
    by (simp add: get_strategy_performance_def split: prod.splits sum.splits)
  have b: "\<exists>items s'. get_recent_trades isoformat hours s = (Inr items, s')"
    by (simp add: get_recent_trades_def split: prod.splits sum.splits)
  have c: "fst (get_strategy_performance isoformat sid days s) = Inr (PList [])" if "\<not> up"
    using that rt
    by (auto simp: get_strategy_performance_def get_strategy_performance_try_def query_def
        Let_def split: prod.splits sum.splits)
  have d: "fst (get_recent_trades isoformat hours s) = Inr (PList [])" if "\<not> up"
    using that rt
    by (auto simp: get_recent_trades_def get_recent_trades_try_def scan_def
        Let_def split: prod.splits sum.splits)
  have e: "fst (get_strategy_performance isoformat sid days s) = Inr (PList [])"
    if "filter (\<lambda>it. map_of it ''StrategyId'' = Some (PStr sid)
            \<and> in_range ''Timestamp'' (isoformat (clock s - days * 86400000000))
                 (isoformat (clock s)) it) (rows (strategy_metrics_table s)) = []"
    using that rt s1
    by (auto simp: get_strategy_performance_def get_strategy_performance_try_def query_def
        get_default_def datetime_sub_def timedelta_def Let_def
        split: prod.splits sum.splits if_splits)
  have f: "fst (get_recent_trades isoformat hours s) = Inr (PList [])"
    if "filter (at_least ''timestamp'' (isoformat (clock s - hours * 3600000000)))
          (rows (trade_logs_table s)) = []"
    using that rt s1
    by (auto simp: get_recent_trades_def get_recent_trades_try_def scan_def
        get_default_def datetime_sub_def timedelta_def Let_def
        split: prod.splits sum.splits if_splits)
  show ?thesis using a b c d e f rt by simp
qed

theorem read_accessors_never_raise_witness:
  "\<not> fst (round_trip (sample_logger [True]))
   \<and> fst (get_strategy_performance sample_isoformat ''ursus_momentum_v1'' 7
          (sample_logger [True])) = Inr (PList [])
   \<and> fst (get_recent_trades sample_isoformat 24 (sample_logger [True])) = Inr (PList [])
   \<and> filter (at_least ''timestamp'' (sample_isoformat (clock (sample_logger []) - 24 * 3600000000)))
        (rows (trade_logs_table (sample_logger []))) = []
   \<and> fst (get_recent_trades sample_isoformat 24 (sample_logger [])) = Inr (PList [])"
proof -
  have down: "\<not> fst (round_trip (sample_logger [True]))"
    by (simp add: round_trip_def sample_logger_def init_def)
  have none: "filter (at_least ''timestamp''
        (sample_isoformat (clock (sample_logger []) - 24 * 3600000000)))
      (rows (trade_logs_table (sample_logger []))) = []"
    by (simp add: sample_logger_def init_def empty_table_def)
  show ?thesis
    using down none
      read_accessors_never_raise [of sample_isoformat "''ursus_momentum_v1''" 7
        "sample_logger [True]" 24]
      read_accessors_never_raise [of sample_isoformat "''ursus_momentum_v1''" 7
        "sample_logger []" 24]
    by simp
qed

section \<open>The background worker\<close>

lemma batch_processor_frame: "\<exists>c. batch_processor n s = s\<lparr>clock := c\<rparr>"
proof (induction n arbitrary: s)
  case 0
  have "s = s\<lparr>clock := clock s\<rparr>" by simp
  then show ?case by (metis batch_processor.simps(1))
next
  case (Suc n)
  show ?case
  proof (cases "running s")
    case True
    from Suc[of "batch_processor_turn s"] obtain c
      where "batch_processor n (batch_processor_turn s) = (batch_processor_turn s)\<lparr>clock := c\<rparr>"
      by blast
    with True have "batch_processor (Suc n) s = s\<lparr>clock := c\<rparr>"
      by (simp add: batch_processor_turn_def)
    then show ?thesis by blast
  next
    case False
    have "s = s\<lparr>clock := clock s\<rparr>" by simp
    with False show ?thesis by (metis batch_processor.simps(2))
  qed
qed

text \<open>
  C8. The background worker does nothing but sleep: after any number of turns of its loop
  the queue, the four tables, the trace of requests and the outages to come are what they
  were, and one turn only moves the clock on by the flush interval.
\<close>

theorem batch_processor_no_op:
  "data_queue (batch_processor n s) = data_queue s
   \<and> trade_logs_table (batch_processor n s) = trade_logs_table s
   \<and> strategy_metrics_table (batch_processor n s) = strategy_metrics_table s
   \<and> market_signals_table (batch_processor n s) = market_signals_table s
   \<and> performance_table (batch_processor n s) = performance_table s
   \<and> sent (batch_processor n s) = sent s
   \<and> outages (batch_processor n s) = outages s
   \<and> batch_processor_turn s = s\<lparr>clock := clock s + int (flush_interval s) * 1000000\<rparr>"
proof -
  obtain c where c: "batch_processor n s = s\<lparr>clock := c\<rparr>"
    using batch_processor_frame[of n s] by blast
  show ?thesis by (simp add: c batch_processor_turn_def)
qed

theorem batch_processor_no_op_witness:
  "batch_processor 2 ((sample_logger [])\<lparr>data_queue := [PStr ''queued'']\<rparr>)
     = (sample_logger [])\<lparr>data_queue := [PStr ''queued''], clock := sample_now + 60000000\<rparr>
   \<and> data_queue (batch_processor 2 ((sample_logger [])\<lparr>data_queue := [PStr ''queued'']\<rparr>))
     = [PStr ''queued'']"
  using batch_processor_no_op [of 2 "(sample_logger [])\<lparr>data_queue := [PStr ''queued'']\<rparr>"]
  by (simp add: eval_nat_numeral batch_processor_turn_def sample_logger_def init_def)

section \<open>The queue\<close>

declare bw_exit.simps [simp del] batch_log_trades_outer.simps [simp del]

lemma put_item_dq [simp]: "data_queue (snd (round_trip s)) = data_queue s"
  by (simp add: round_trip_def split: list.splits)

lemma request_dq [simp]: "data_queue (snd (request t vs s)) = data_queue s"
  by (simp add: request_def)

lemma request_frame:
  "request t vs s = (up, s1) \<Longrightarrow>
     trade_logs_table s1 = trade_logs_table s \<and>
     strategy_metrics_table s1 = strategy_metrics_table s \<and>
     market_signals_table s1 = market_signals_table s \<and>
     performance_table s1 = performance_table s \<and>
     sent s1 = sent s \<and> clock s1 = clock s \<and> data_queue s1 = data_queue s \<and>
     batch_size s1 = batch_size s \<and> flush_interval s1 = flush_interval s \<and>
     running s1 = running s"
  using round_trip_frame[of s up s1] by (auto simp: request_def split: if_splits)

lemma log_trade_dq: "data_queue (snd (log_trade fstr t s)) = data_queue s"
  by (simp add: log_trade_def Let_def case_prod_beta split: sum.splits)

lemma log_strategy_metrics_dq: "data_queue (snd (log_strategy_metrics fstr t s)) = data_queue s"
  by (simp add: log_strategy_metrics_def Let_def case_prod_beta split: sum.splits)

lemma log_market_signal_dq: "data_queue (snd (log_market_signal fstr t s)) = data_queue s"
  by (simp add: log_market_signal_def Let_def case_prod_beta split: sum.splits)

lemma log_daily_performance_dq:
  "data_queue (snd (log_daily_performance fstr isoformat date m s)) = data_queue s"
  by (simp add: log_daily_performance_def Let_def case_prod_beta split: sum.splits)

lemma bw_flush_dq: "bw_flush buf s = (r, buf', s') \<Longrightarrow> data_queue s' = data_queue s"
  by (auto simp: bw_flush_def Let_def case_prod_beta split: sum.splits)

lemma bw_exit_dq: "bw_exit buf s = (r, s') \<Longrightarrow> data_queue s' = data_queue s"
proof (induction buf s arbitrary: r s' rule: bw_exit.induct)
  case (1 buf s)
  show ?case
  proof (cases "buf = []")
    case True
    with 1(2) show ?thesis by (simp add: bw_exit.simps[of "[]" s])
  next
    case False
    obtain r1 buf1 s1 where f: "bw_flush buf s = (r1, buf1, s1)" by (cases "bw_flush buf s")
    show ?thesis
    proof (cases r1)
      case (Inl e)
      with 1(2) False f bw_flush_dq[OF f] show ?thesis by (simp add: bw_exit.simps[of buf s])
    next
      case (Inr u)
      with 1(2) False f have "bw_exit buf1 s1 = (r, s')" by (simp add: bw_exit.simps[of buf s])
      from 1(1)[OF False f[symmetric] Inr refl this] bw_flush_dq[OF f] show ?thesis by simp
    qed
  qed
qed

lemma bw_put_item_dq: "bw_put_item buf it s = (r, buf', s') \<Longrightarrow> data_queue s' = data_queue s"
  by (auto simp: bw_put_item_def dest: bw_flush_dq split: if_splits)

lemma inner_dq:
  "batch_log_trades_inner fstr batch buf s c = (r, buf', s', c') \<Longrightarrow> data_queue s' = data_queue s"
proof (induction batch arbitrary: buf s c)
  case Nil
  then show ?case by simp
next
  case (Cons t batch)
  obtain r1 buf1 s1 where p: "bw_put_item buf (convert_decimals fstr (asdict_TradeLog t)) s = (r1, buf1, s1)"
    by (cases "bw_put_item buf (convert_decimals fstr (asdict_TradeLog t)) s")
  show ?case
  proof (cases r1)
    case (Inl e)
    with Cons.prems p bw_put_item_dq[OF p] show ?thesis by simp
  next
    case (Inr u)
    with Cons.prems p have "batch_log_trades_inner fstr batch buf1 s1 (c + 1) = (r, buf', s', c')"
      by simp
    from Cons.IH[OF this] bw_put_item_dq[OF p] show ?thesis by simp
  qed
qed

lemma batch_dq:
  "batch_log_trades_batch fstr batch s c = (c', s') \<Longrightarrow> data_queue s' = data_queue s"
proof -
  assume a: "batch_log_trades_batch fstr batch s c = (c', s')"
  obtain r buf s1 c1 where i: "batch_log_trades_inner fstr batch [] s c = (r, buf, s1, c1)"
    by (cases "batch_log_trades_inner fstr batch [] s c")
  obtain r2 s2 where e: "bw_exit buf s1 = (r2, s2)" by (cases "bw_exit buf s1")
  from a i e have "s' = s2" by (simp add: batch_log_trades_batch_def)
  with inner_dq[OF i] bw_exit_dq[OF e] show ?thesis by simp
qed

lemma outer_dq:
  "batch_log_trades_outer fstr n trades s c = (c', s') \<Longrightarrow> data_queue s' = data_queue s"
proof (induction fstr n trades s c rule: batch_log_trades_outer.induct)
  case (1 fstr n trades s c)
  show ?case
  proof (cases "trades = [] \<or> n = 0")
    case True
    with 1(2) show ?thesis by (simp add: batch_log_trades_outer.simps[of fstr n trades s c])
  next
    case False
    obtain c1 s1 where b: "batch_log_trades_batch fstr (take n trades) s c = (c1, s1)"
      by (cases "batch_log_trades_batch fstr (take n trades) s c")
    with 1(2) False have "batch_log_trades_outer fstr n (drop n trades) s1 c1 = (c', s')"
      by (simp add: batch_log_trades_outer.simps[of fstr n trades s c])
    from 1(1)[OF False b[symmetric] this] batch_dq[OF b] show ?thesis by simp
  qed
qed

lemma batch_log_trades_dq: "data_queue (snd (batch_log_trades fstr ts s)) = data_queue s"
proof (cases "batch_size s = 0")
  case True
  then show ?thesis by (simp add: batch_log_trades_def)
next
  case False
  obtain c' s' where o: "batch_log_trades_outer fstr (batch_size s) ts s 0 = (c', s')"
    by (cases "batch_log_trades_outer fstr (batch_size s) ts s 0")
  with False outer_dq[OF o] show ?thesis by (simp add: batch_log_trades_def)
qed

lemma get_strategy_performance_dq:
  "data_queue (snd (get_strategy_performance isoformat sid days s)) = data_queue s"
  by (simp add: get_strategy_performance_def get_strategy_performance_try_def Let_def case_prod_beta split: sum.splits)

lemma get_recent_trades_dq:
  "data_queue (snd (get_recent_trades isoformat hours s)) = data_queue s"
  by (simp add: get_recent_trades_def get_recent_trades_try_def Let_def case_prod_beta split: sum.splits)

lemma batch_processor_dq: "data_queue (batch_processor n s) = data_queue s"
  by (induction n arbitrary: s) (auto simp: batch_processor_turn_def)

lemma perform_dq: "data_queue (perform fstr isoformat c s) = data_queue s"
  by (cases c)
    (simp_all add: log_trade_dq log_strategy_metrics_dq log_market_signal_dq
      log_daily_performance_dq batch_log_trades_dq get_strategy_performance_dq
      get_recent_trades_dq batch_processor_dq shutdown_def)

lemma put_item_stored: "put_item up t v = Inr t' \<Longrightarrow> v \<in> PDict ` set (rows t')"
  by (auto simp: put_item_def upsert_def split: pyval.splits if_splits)

text \<open>
  What a \<open>log_*\<close> call does, in full: it succeeds exactly when its item can be
  serialized, the store is reached and the item fits the key schema of its table, and
  then the table has taken the item.
\<close>

lemma log_trade_outcome:
  assumes "convert_decimals fstr (asdict_TradeLog x) = PDict it"
  shows "log_trade fstr x s =
     (if serializes (trade_logs_table s) (PDict it) \<and> fst (round_trip s) \<and> has_key (trade_logs_table s) it
      then (True, (snd (round_trip s))\<lparr>trade_logs_table := upsert (trade_logs_table s) it\<rparr>)
      else (False, if serializes (trade_logs_table s) (PDict it) then snd (round_trip s) else s))"
proof -
  obtain up s1 where rt: "round_trip s = (up, s1)" by (cases "round_trip s")
  note fr = round_trip_frame[OF rt]
  show ?thesis
  proof (cases "serializes (trade_logs_table s) (PDict it)")
    case True
    then have w: "wire_item (number (trade_logs_table s)) it \<noteq> None"
      by (simp add: serializes_def)
    from True have rq: "request (trade_logs_table s) [PDict it] s = (up, s1)"
      by (simp add: request_def rt)
    show ?thesis
      using assms True rq rt fr w by (auto simp: log_trade_def put_item_def)
  next
    case False
    then have w: "wire_item (number (trade_logs_table s)) it = None"
      by (simp add: serializes_def)
    from False have rq: "request (trade_logs_table s) [PDict it] s = (False, s)"
      by (simp add: request_def)
    show ?thesis
      using assms False rq w by (simp add: log_trade_def put_item_def)
  qed
qed

lemma log_strategy_metrics_outcome:
  assumes "convert_decimals fstr (asdict_StrategyMetric x) = PDict it"
  shows "log_strategy_metrics fstr x s =
     (if serializes (strategy_metrics_table s) (PDict it) \<and> fst (round_trip s) \<and> has_key (strategy_metrics_table s) it
      then (True, (snd (round_trip s))\<lparr>strategy_metrics_table := upsert (strategy_metrics_table s) it\<rparr>)
      else (False, if serializes (strategy_metrics_table s) (PDict it) then snd (round_trip s) else s))"
proof -
  obtain up s1 where rt: "round_trip s = (up, s1)" by (cases "round_trip s")
  note fr = round_trip_frame[OF rt]
  show ?thesis
  proof (cases "serializes (strategy_metrics_table s) (PDict it)")
    case True
    then have w: "wire_item (number (strategy_metrics_table s)) it \<noteq> None"
      by (simp add: serializes_def)
    from True have rq: "request (strategy_metrics_table s) [PDict it] s = (up, s1)"
      by (simp add: request_def rt)
    show ?thesis
      using assms True rq rt fr w by (auto simp: log_strategy_metrics_def put_item_def)
  next
    case False
    then have w: "wire_item (number (strategy_metrics_table s)) it = None"
      by (simp add: serializes_def)
    from False have rq: "request (strategy_metrics_table s) [PDict it] s = (False, s)"
      by (simp add: request_def)
    show ?thesis
      using assms False rq w by (simp add: log_strategy_metrics_def put_item_def)
  qed
qed

lemma log_market_signal_outcome:
  assumes "convert_decimals fstr (asdict_MarketSignal x) = PDict it"
  shows "log_market_signal fstr x s =
     (if serializes (market_signals_table s) (PDict it) \<and> fst (round_trip s) \<and> has_key (market_signals_table s) it
      then (True, (snd (round_trip s))\<lparr>market_signals_table := upsert (market_signals_table s) it\<rparr>)
      else (False, if serializes (market_signals_table s) (PDict it) then snd (round_trip s) else s))"
proof -
  obtain up s1 where rt: "round_trip s = (up, s1)" by (cases "round_trip s")
  note fr = round_trip_frame[OF rt]
  show ?thesis
  proof (cases "serializes (market_signals_table s) (PDict it)")
    case True
    then have w: "wire_item (number (market_signals_table s)) it \<noteq> None"
      by (simp add: serializes_def)
    from True have rq: "request (market_signals_table s) [PDict it] s = (up, s1)"
      by (simp add: request_def rt)
    show ?thesis
      using assms True rq rt fr w by (auto simp: log_market_signal_def put_item_def)
  next
    case False
    then have w: "wire_item (number (market_signals_table s)) it = None"
      by (simp add: serializes_def)
    from False have rq: "request (market_signals_table s) [PDict it] s = (False, s)"
      by (simp add: request_def)
    show ?thesis
      using assms False rq w by (simp add: log_market_signal_def put_item_def)
  qed
qed

lemma fold_perform_dq: "data_queue (fold (perform fstr isoformat) cs s) = data_queue s"
  by (induction cs arbitrary: s) (simp_all add: perform_dq)

text \<open>
  C9. No public method and no turn of the worker puts anything into the queue: after any
  sequence of calls on a fresh logger the queue is still empty. A \<open>log_trade\<close>,
  \<open>log_strategy_metrics\<close> or \<open>log_market_signal\<close> that reports success has written its
  item into its table itself.
\<close>

theorem data_queue_stays_empty:
  "data_queue (perform_all fstr isoformat cs (init trades metrics signals perf out now)) = []
   \<and> (fst (log_trade fstr t s) \<longrightarrow>
        data_queue (snd (log_trade fstr t s)) = data_queue s
        \<and> convert_decimals fstr (asdict_TradeLog t)
            \<in> PDict ` set (rows (trade_logs_table (snd (log_trade fstr t s)))))
   \<and> (fst (log_strategy_metrics fstr m s) \<longrightarrow>
        data_queue (snd (log_strategy_metrics fstr m s)) = data_queue s
        \<and> convert_decimals fstr (asdict_StrategyMetric m)
            \<in> PDict ` set (rows (strategy_metrics_table (snd (log_strategy_metrics fstr m s)))))
   \<and> (fst (log_market_signal fstr g s) \<longrightarrow>
        data_queue (snd (log_market_signal fstr g s)) = data_queue s
        \<and> convert_decimals fstr (asdict_MarketSignal g)
            \<in> PDict ` set (rows (market_signals_table (snd (log_market_signal fstr g s)))))"
proof -
  have q: "data_queue (perform_all fstr isoformat cs (init trades metrics signals perf out now)) = []"
    by (simp add: perform_all_def fold_perform_dq init_def)
  have w: "convert_decimals fstr (asdict_TradeLog t)
      \<in> PDict ` set (rows (trade_logs_table (snd (log_trade fstr t s))))"
    if "fst (log_trade fstr t s)"
  proof -
    obtain up s1 where rt: "request (trade_logs_table s)
        [convert_decimals fstr (asdict_TradeLog t)] s = (up, s1)"
      by (cases "request (trade_logs_table s) [convert_decimals fstr (asdict_TradeLog t)] s")
    from that rt obtain t' where
      p: "put_item up (trade_logs_table s1) (convert_decimals fstr (asdict_TradeLog t)) = Inr t'"
      and s': "snd (log_trade fstr t s) = s1\<lparr>trade_logs_table := t'\<rparr>"
      by (auto simp: log_trade_def Let_def split: sum.splits)
    from put_item_stored[OF p] s' show ?thesis by simp
  qed
  have w2: "convert_decimals fstr (asdict_StrategyMetric m)
      \<in> PDict ` set (rows (strategy_metrics_table (snd (log_strategy_metrics fstr m s))))"
    if "fst (log_strategy_metrics fstr m s)"
  proof -
    obtain up s1 where rt: "request (strategy_metrics_table s)
        [convert_decimals fstr (asdict_StrategyMetric m)] s = (up, s1)"
      by (cases "request (strategy_metrics_table s)
        [convert_decimals fstr (asdict_StrategyMetric m)] s")
    from that rt obtain t' where
      p: "put_item up (strategy_metrics_table s1) (convert_decimals fstr (asdict_StrategyMetric m))
            = Inr t'"
      and s': "snd (log_strategy_metrics fstr m s) = s1\<lparr>strategy_metrics_table := t'\<rparr>"
      by (auto simp: log_strategy_metrics_def Let_def split: sum.splits)
    from put_item_stored[OF p] s' show ?thesis by simp
  qed
  have w3: "convert_decimals fstr (asdict_MarketSignal g)
      \<in> PDict ` set (rows (market_signals_table (snd (log_market_signal fstr g s))))"
    if "fst (log_market_signal fstr g s)"
  proof -
    obtain up s1 where rt: "request (market_signals_table s)
        [convert_decimals fstr (asdict_MarketSignal g)] s = (up, s1)"
      by (cases "request (market_signals_table s)
        [convert_decimals fstr (asdict_MarketSignal g)] s")
    from that rt obtain t' where
      p: "put_item up (market_signals_table s1) (convert_decimals fstr (asdict_MarketSignal g))
            = Inr t'"
      and s': "snd (log_market_signal fstr g s) = s1\<lparr>market_signals_table := t'\<rparr>"
      by (auto simp: log_market_signal_def Let_def split: sum.splits)
    from put_item_stored[OF p] s' show ?thesis by simp
  qed
  show ?thesis
    using q w w2 w3 by (simp add: log_trade_dq log_strategy_metrics_dq log_market_signal_dq)
qed

theorem data_queue_stays_empty_witness:
  "fst (log_trade sample_str sample_trade (sample_logger []))
   \<and> data_queue (snd (log_trade sample_str sample_trade (sample_logger []))) = []
   \<and> rows (trade_logs_table (snd (log_trade sample_str sample_trade (sample_logger [])))) =
       [[(''trade_id'', PStr ''T1''), (''timestamp'', PStr ''2025-07-09T12:00:00+00:00''),
         (''strategy'', PStr ''ursus_momentum_v1''), (''symbol'', PStr ''TSLA''),
         (''action'', PStr ''BUY''), (''quantity'', PDecimal ''100.0''),
         (''price'', PDecimal ''245.5''), (''confidence'', PDecimal ''0.85''),
         (''market_signal'', PStr ''BULLISH_MOMENTUM''),
         (''execution_time_ms'', PDecimal ''150.5''), (''profit_loss'', PNone),
         (''portfolio_value'', PDecimal ''50000.0'')]]"
proof -
  have l: "log_trade sample_str sample_trade (sample_logger []) =
     (True, (sample_logger [])\<lparr>trade_logs_table := (empty_table ''trade_id'' None)\<lparr>
        rows := [[(''trade_id'', PStr ''T1''), (''timestamp'', PStr ''2025-07-09T12:00:00+00:00''),
         (''strategy'', PStr ''ursus_momentum_v1''), (''symbol'', PStr ''TSLA''),
         (''action'', PStr ''BUY''), (''quantity'', PDecimal ''100.0''),
         (''price'', PDecimal ''245.5''), (''confidence'', PDecimal ''0.85''),
         (''market_signal'', PStr ''BULLISH_MOMENTUM''),
         (''execution_time_ms'', PDecimal ''150.5''), (''profit_loss'', PNone),
         (''portfolio_value'', PDecimal ''50000.0'')]] \<rparr>\<rparr>)"
    by (simp add: log_trade_def sample_trade_def sample_logger_def init_def empty_table_def
        request_def serializes_def wire_item_def sample_number_def round_trip_def
        asdict_TradeLog_def put_item_def has_key_def upsert_def sample_str_def)
  have dq: "data_queue (sample_logger []) = []"
    by (simp add: sample_logger_def init_def)
  show ?thesis
    using data_queue_stays_empty [of sample_str sample_isoformat "[]"
        "empty_table ''trade_id'' None" "empty_table ''strategy_id'' (Some ''timestamp'')"
        "empty_table ''signal_id'' None" "empty_table ''MetricType'' (Some ''Date'')"
        "[]" sample_now sample_trade "sample_logger []" sample_metric "\<lparr> signal_id = PNone,
          MarketSignal.timestamp = PNone, MarketSignal.symbol = PNone, signal_type = PNone,
          strength = PNone, indicators = PNone, news_sentiment = PNone,
          volume_analysis = PNone \<rparr>"]
    by (simp add: l dq)
qed

section \<open>The daily performance item\<close>

lemma update_fresh: "k \<notin> fst ` set al \<Longrightarrow> AList.update k v al = al @ [(k, v)]"
  by (induction al) auto

lemma fold_update_fresh:
  "distinct (map fst kvs) \<Longrightarrow> fst ` set d0 \<inter> fst ` set kvs = {} \<Longrightarrow>
   fold (\<lambda>kv d. AList.update (fst kv) (snd kv) d) kvs d0 = d0 @ kvs"
proof (induction kvs arbitrary: d0)
  case Nil
  then show ?case by simp
next
  case (Cons kv kvs)
  from Cons.prems have fresh: "fst kv \<notin> fst ` set d0" by auto
  have "fst ` set (d0 @ [kv]) \<inter> fst ` set kvs = {}"
    using Cons.prems by auto
  with Cons.IH[of "d0 @ [kv]"] Cons.prems(1)
  have "fold (\<lambda>kv d. AList.update (fst kv) (snd kv) d) kvs (d0 @ [kv]) = (d0 @ [kv]) @ kvs"
    by simp
  then show ?case using fresh by (simp add: update_fresh)
qed

lemma map_of_fold_update:
  "distinct (map fst kvs) \<Longrightarrow>
   map_of (fold (\<lambda>kv d. AList.update (fst kv) (snd kv) d) kvs d0) k =
     (case map_of kvs k of None \<Rightarrow> map_of d0 k | Some v \<Rightarrow> Some v)"
proof (induction kvs arbitrary: d0)
  case Nil
  then show ?case by simp
next
  case (Cons kv kvs)
  obtain a b where kv: "kv = (a, b)" by (cases kv)
  from Cons.prems kv have a: "map_of kvs a = None"
    by (simp add: map_of_eq_None_iff)
  from Cons.prems have "distinct (map fst kvs)" by simp
  note ih = Cons.IH[OF this, of "AList.update a b d0"]
  show ?case
  proof (cases "k = a")
    case True
    with ih a kv show ?thesis by (simp add: update_conv')
  next
    case False
    with ih kv show ?thesis by (simp add: update_conv' split: option.splits)
  qed
qed

lemma map_of_converted:
  "map_of (map (\<lambda>kv. (fst kv, f (snd kv))) kvs) k = map_option f (map_of kvs k)"
  by (induction kvs) auto

lemma log_daily_performance_outcome:
  assumes "daily_item fstr date metrics (isoformat (clock s)) = Inr (PDict item)"
  shows "log_daily_performance fstr isoformat date metrics s =
     (if serializes (performance_table s) (PDict item) \<and> fst (round_trip s)
         \<and> has_key (performance_table s) item
      then (True, (snd (round_trip s))\<lparr>performance_table := upsert (performance_table s) item\<rparr>)
      else (False, if serializes (performance_table s) (PDict item) then snd (round_trip s) else s))"
proof -
  obtain up s1 where rt: "round_trip s = (up, s1)" by (cases "round_trip s")
  note fr = round_trip_frame[OF rt]
  show ?thesis
  proof (cases "serializes (performance_table s) (PDict item)")
    case True
    then have w: "wire_item (number (performance_table s)) item \<noteq> None"
      by (simp add: serializes_def)
    from True have rq: "request (performance_table s) [PDict item] s = (up, s1)"
      by (simp add: request_def rt)
    show ?thesis
      using assms True rq rt fr w
      by (auto simp: log_daily_performance_def put_item_def)
  next
    case False
    then have w: "wire_item (number (performance_table s)) item = None"
      by (simp add: serializes_def)
    from False have rq: "request (performance_table s) [PDict item] s = (False, s)"
      by (simp add: request_def)
    show ?thesis
      using assms False rq w
      by (simp add: log_daily_performance_def put_item_def)
  qed
qed

text \<open>
  C10. The item that \<open>log_daily_performance\<close> builds from a metrics dict and stores:
  its \<open>Timestamp\<close> is always the write time, also when the metrics have a
  \<open>Timestamp\<close> of their own; a metric named \<open>MetricType\<close> or \<open>Date\<close> replaces the
  tag or the date; when the metrics use none of the three names, the item is the tag, the
  date, every normalized metric and the write time, in this order. The call succeeds
  exactly when the item can be serialized, the store is reached and the item fits the key
  schema of the performance table; then the table has taken this very item, and otherwise
  the table is as it was.
\<close>

theorem daily_item_collisions:
  assumes "distinct (map fst kvs)"
  shows "\<exists>item. daily_item fstr date (PDict kvs) ts = Inr (PDict item)
    \<and> map_of item ''Timestamp'' = Some (PStr ts)
    \<and> (\<forall>v. map_of kvs ''MetricType'' = Some v \<longrightarrow>
          map_of item ''MetricType'' = Some (convert_decimals fstr v))
    \<and> (\<forall>v. map_of kvs ''Date'' = Some v \<longrightarrow>
          map_of item ''Date'' = Some (convert_decimals fstr v))
    \<and> ({''MetricType'', ''Date'', ''Timestamp''} \<inter> fst ` set kvs = {} \<longrightarrow>
          item = [(''MetricType'', PStr ''DAILY_PERFORMANCE''), (''Date'', PStr date)]
                 @ map (\<lambda>kv. (fst kv, convert_decimals fstr (snd kv))) kvs
                 @ [(''Timestamp'', PStr ts)])
    \<and> (ts = isoformat (clock s) \<longrightarrow>
          (fst (log_daily_performance fstr isoformat date (PDict kvs) s) \<longleftrightarrow>
             serializes (performance_table s) (PDict item) \<and> fst (round_trip s)
             \<and> has_key (performance_table s) item)
          \<and> (fst (log_daily_performance fstr isoformat date (PDict kvs) s) \<longrightarrow>
               performance_table (snd (log_daily_performance fstr isoformat date (PDict kvs) s))
                 = upsert (performance_table s) item
               \<and> item \<in> set (rows (performance_table
                    (snd (log_daily_performance fstr isoformat date (PDict kvs) s)))))
          \<and> (\<not> fst (log_daily_performance fstr isoformat date (PDict kvs) s) \<longrightarrow>
               performance_table (snd (log_daily_performance fstr isoformat date (PDict kvs) s))
                 = performance_table s))"
proof -
  define kvs' where "kvs' = map (\<lambda>kv. (fst kv, convert_decimals fstr (snd kv))) kvs"
  define d0 :: "(string \<times> 'a pyval) list"
    where "d0 = [(''MetricType'', PStr ''DAILY_PERFORMANCE''), (''Date'', PStr date)]"
  define mid where "mid = fold (\<lambda>kv d. AList.update (fst kv) (snd kv) d) kvs' d0"
  define item where "item = AList.update ''Timestamp'' (PStr ts) mid"
  have keys: "map fst kvs' = map fst kvs" by (simp add: kvs'_def comp_def)
  with assms have dist: "distinct (map fst kvs')" by simp
  have it: "daily_item fstr date (PDict kvs) ts = Inr (PDict item)"
    by (simp add: daily_item_def item_def mid_def kvs'_def d0_def)
  have ts: "map_of item ''Timestamp'' = Some (PStr ts)"
    by (simp add: item_def update_conv')
  have look: "map_of item k = Some (convert_decimals fstr v)"
    if "map_of kvs k = Some v" "k \<noteq> ''Timestamp''" for k v
    using that map_of_fold_update[OF dist, of d0 k]
    by (simp add: item_def mid_def update_conv' kvs'_def map_of_converted)
  have disj: "item = d0 @ kvs' @ [(''Timestamp'', PStr ts)]"
    if "{''MetricType'', ''Date'', ''Timestamp''} \<inter> fst ` set kvs = {}"
  proof -
    have k: "fst ` set kvs' = fst ` set kvs" using keys by (metis list.set_map)
    from that k have "fst ` set d0 \<inter> fst ` set kvs' = {}" by (auto simp: d0_def)
    from fold_update_fresh[OF dist this] have m: "mid = d0 @ kvs'" by (simp add: mid_def)
    from that k have "''Timestamp'' \<notin> fst ` set (d0 @ kvs')" by (auto simp: d0_def)
    then show ?thesis unfolding item_def m by (simp add: update_fresh)
  qed
  let ?l = "log_daily_performance fstr isoformat date (PDict kvs) s"
  let ?ok = "serializes (performance_table s) (PDict item) \<and> fst (round_trip s)
      \<and> has_key (performance_table s) item"
  have out: "?l = (if ?ok
      then (True, (snd (round_trip s))\<lparr>performance_table := upsert (performance_table s) item\<rparr>)
      else (False, if serializes (performance_table s) (PDict item) then snd (round_trip s) else s))"
    if "ts = isoformat (clock s)"
    using log_daily_performance_outcome[of fstr date "PDict kvs" isoformat s item] it that
    by simp
  have fr: "performance_table (snd (round_trip s)) = performance_table s"
    using round_trip_frame[of s "fst (round_trip s)" "snd (round_trip s)"] by simp
  have s1: "fst ?l \<longleftrightarrow> ?ok" if "ts = isoformat (clock s)"
    using out[OF that] by simp
  have s2: "performance_table (snd ?l) = upsert (performance_table s) item
      \<and> item \<in> set (rows (performance_table (snd ?l)))"
    if "ts = isoformat (clock s)" "fst ?l"
    using out[OF that(1)] that(2) by (simp add: upsert_def split: if_splits)
  have s3: "performance_table (snd ?l) = performance_table s"
    if "ts = isoformat (clock s)" "\<not> fst ?l"
    using out[OF that(1)] that(2) fr by (auto split: if_splits)
  show ?thesis
    using it ts look[of "''MetricType''"] look[of "''Date''"] disj s1 s2 s3
    by (auto simp: d0_def kvs'_def)
qed

theorem daily_item_collisions_witness:
  "distinct (map fst sample_metrics)
   \<and> daily_item sample_str ''2025-07-09'' (PDict sample_metrics) ''2025-07-09T12:00:00+00:00''
       = Inr (PDict [(''MetricType'', PStr ''INTRADAY''), (''Date'', PStr ''2025-07-09''),
           (''Timestamp'', PStr ''2025-07-09T12:00:00+00:00''), (''pnl'', PDecimal ''245.5'')])
   \<and> distinct (map fst [(''pnl'', PFloat (245.50::rat))])
   \<and> {''MetricType'', ''Date'', ''Timestamp''} \<inter> fst ` set [(''pnl'', PFloat (245.50::rat))] = {}
   \<and> daily_item sample_str ''2025-07-09'' (PDict [(''pnl'', PFloat 245.50)])
         ''2025-07-09T12:00:00+00:00''
       = Inr (PDict [(''MetricType'', PStr ''DAILY_PERFORMANCE''), (''Date'', PStr ''2025-07-09''),
           (''pnl'', PDecimal ''245.5''), (''Timestamp'', PStr ''2025-07-09T12:00:00+00:00'')])
   \<and> sample_isoformat (clock (sample_logger [])) = ''2025-07-09T12:00:00+00:00''
   \<and> log_daily_performance sample_str sample_isoformat ''2025-07-09''
         (PDict [(''pnl'', PFloat 245.50)]) (sample_logger [])
       = (True, (sample_logger [])\<lparr>performance_table :=
           (empty_table ''MetricType'' (Some ''Date''))\<lparr>rows :=
             [[(''MetricType'', PStr ''DAILY_PERFORMANCE''), (''Date'', PStr ''2025-07-09''),
               (''pnl'', PDecimal ''245.5''),
               (''Timestamp'', PStr ''2025-07-09T12:00:00+00:00'')]]\<rparr>\<rparr>)
   \<and> log_daily_performance sample_str sample_isoformat ''2025-07-09''
         (PDict [(''Date'', PFloat 4.5)]) (sample_logger [])
       = (False, sample_logger [])"
proof -
  have h: "distinct (map fst sample_metrics)"
    by (simp add: sample_metrics_def)
  have h': "distinct (map fst [(''pnl'', PFloat (245.50::rat))])"
    by simp
  have d: "{''MetricType'', ''Date'', ''Timestamp''} \<inter> fst ` set [(''pnl'', PFloat (245.50::rat))] = {}"
    by simp
  have c: "sample_isoformat (clock (sample_logger [])) = ''2025-07-09T12:00:00+00:00''"
    by (simp add: sample_logger_def init_def sample_now_def sample_isoformat_def)
  have ok: "log_daily_performance sample_str sample_isoformat ''2025-07-09''
         (PDict [(''pnl'', PFloat 245.50)]) (sample_logger [])
       = (True, (sample_logger [])\<lparr>performance_table :=
           (empty_table ''MetricType'' (Some ''Date''))\<lparr>rows :=
             [[(''MetricType'', PStr ''DAILY_PERFORMANCE''), (''Date'', PStr ''2025-07-09''),
               (''pnl'', PDecimal ''245.5''),
               (''Timestamp'', PStr ''2025-07-09T12:00:00+00:00'')]]\<rparr>\<rparr>)"
    by (simp add: log_daily_performance_def daily_item_def sample_logger_def init_def
        empty_table_def request_def serializes_def wire_item_def sample_number_def
        round_trip_def put_item_def has_key_def upsert_def sample_str_def sample_now_def
        sample_isoformat_def)
  have no: "log_daily_performance sample_str sample_isoformat ''2025-07-09''
         (PDict [(''Date'', PFloat 4.5)]) (sample_logger [])
       = (False, sample_logger [])"
    by (simp add: log_daily_performance_def daily_item_def sample_logger_def init_def
        empty_table_def request_def serializes_def wire_item_def sample_number_def
        round_trip_def put_item_def has_key_def upsert_def sample_str_def sample_now_def
        sample_isoformat_def)
  show ?thesis
    using h h' d c ok no
      daily_item_collisions [OF h, of sample_str "''2025-07-09''" "''2025-07-09T12:00:00+00:00''"
        sample_isoformat "sample_logger []"]
      daily_item_collisions [OF h', of sample_str "''2025-07-09''" "''2025-07-09T12:00:00+00:00''"
        sample_isoformat "sample_logger []"]
    by (simp add: daily_item_def sample_metrics_def sample_str_def)
qed

section \<open>Reading strategy metrics back\<close>

lemma put_item_schema:
  "put_item up t v = Inr t' \<Longrightarrow> hash_key t' = hash_key t \<and> range_key t' = range_key t"
  by (auto simp: put_item_def upsert_def split: pyval.splits if_splits)

lemma wire_item_keys: "wire_item num it = Some w \<Longrightarrow> map fst w = map fst it"
  unfolding wire_item_def
  by (induction it arbitrary: w) (auto split: option.splits)

lemma fits_None [simp]: "\<not> fits ty None"
  by (cases ty) simp_all

lemma has_key_hash: "has_key t it \<Longrightarrow> hash_key t \<in> fst ` set it"
proof -
  assume h: "has_key t it"
  then obtain w where w: "wire_item (number t) it = Some w"
    by (auto simp: has_key_def split: option.splits)
  with h have "fits (hash_type t) (map_of w (hash_key t))"
    by (simp add: has_key_def)
  then have "map_of w (hash_key t) \<noteq> None"
    by (cases "map_of w (hash_key t)") simp_all
  then have "hash_key t \<in> fst ` set w" by (simp add: map_of_eq_None_iff)
  with wire_item_keys[OF w] show ?thesis by (metis list.set_map)
qed

lemma metric_item_no_StrategyId:
  "convert_decimals fstr (asdict_StrategyMetric m) = PDict it \<Longrightarrow> map_of it ''StrategyId'' = None"
  by (auto simp: asdict_StrategyMetric_def)

lemma log_strategy_metrics_unreadable:
  assumes "unreadable s"
  shows "unreadable (snd (log_strategy_metrics fstr m s))"
proof -
  let ?item = "convert_decimals fstr (asdict_StrategyMetric m)"
  obtain up s1 where rt: "request (strategy_metrics_table s) [?item] s = (up, s1)"
    by (cases "request (strategy_metrics_table s) [?item] s")
  note fr = request_frame[OF rt]
  show ?thesis
  proof (cases "put_item up (strategy_metrics_table s1) ?item")
    case (Inl e)
    with rt fr assms show ?thesis
      by (simp add: log_strategy_metrics_def Let_def unreadable_def)
  next
    case (Inr t')
    then obtain it where it: "?item = PDict it" "has_key (strategy_metrics_table s1) it"
      by (auto simp: put_item_def split: pyval.splits if_splits)
    from it(1) have "fst ` set it = set StrategyMetric_required"
      by (auto simp: asdict_StrategyMetric_def StrategyMetric_required_def)
    with has_key_hash[OF it(2)]
    have "hash_key (strategy_metrics_table s1) \<in> set StrategyMetric_required" by simp
    moreover have "''StrategyId'' \<notin> set StrategyMetric_required"
      by (simp add: StrategyMetric_required_def)
    ultimately have "hash_key (strategy_metrics_table s1) \<noteq> ''StrategyId''" by metis
    with put_item_schema[OF Inr] rt Inr show ?thesis
      by (simp add: log_strategy_metrics_def Let_def unreadable_def)
  qed
qed

lemma get_strategy_performance_unreadable:
  assumes "unreadable s"
  shows "fst (get_strategy_performance isoformat sid days s) = Inr (PList [])"
proof -
  obtain up s1 where rt: "round_trip s = (up, s1)" by (cases "round_trip s")
  note fr = round_trip_frame[OF rt]
  from assms fr rt show ?thesis
    by (auto simp: get_strategy_performance_def get_strategy_performance_try_def query_def
        get_default_def unreadable_def Let_def split: prod.splits sum.splits if_splits)
qed

lemma logged_metrics_never_returned:
  assumes "rows (strategy_metrics_table s) = []"
  shows "fst (get_strategy_performance isoformat sid days
           (fold (\<lambda>m s. snd (log_strategy_metrics fstr m s)) ms s)) = Inr (PList [])"
proof -
  have "unreadable (fold (\<lambda>m s. snd (log_strategy_metrics fstr m s)) ms s)" if "unreadable s" for s
    using that by (induction ms arbitrary: s) (simp_all add: log_strategy_metrics_unreadable)
  moreover from assms have "unreadable s" by (simp add: unreadable_def)
  ultimately show ?thesis by (simp add: get_strategy_performance_unreadable)
qed

text \<open>
  C7. \<open>get_strategy_performance\<close> is to return the metrics of the strategy inside the
  window. The code does not: a metric that \<open>log_strategy_metrics\<close> has just stored for
  the strategy, one day old, is not returned by a query over seven days. The item is
  written under \<open>strategy_id\<close> and \<open>timestamp\<close>, the query names the keys
  \<open>StrategyId\<close> and \<open>Timestamp\<close>: on a table keyed as the items are written the store
  refuses the query and the handler returns \<open>[]\<close>; on a table keyed as the query reads,
  the write is refused.
\<close>

theorem get_strategy_performance_misses_logged_metric:
  "log_strategy_metrics sample_str sample_metric (sample_logger_keyed ''strategy_id'' ''timestamp'')
     = (True, (sample_logger_keyed ''strategy_id'' ''timestamp'')
         \<lparr>strategy_metrics_table := (empty_table ''strategy_id'' (Some ''timestamp''))\<lparr>
            rows := [[(''strategy_id'', PStr ''ursus_momentum_v1''),
              (''timestamp'', PStr ''2025-07-08T12:00:00+00:00''),
              (''win_rate'', PDecimal ''0.68''), (''total_trades'', PInt 45),
              (''profit_loss'', PDecimal ''2750.5''), (''sharpe_ratio'', PDecimal ''1.85''),
              (''max_drawdown'', PDecimal ''0.12''), (''current_positions'', PInt 3),
              (''avg_hold_time'', PDecimal ''4.5'')]] \<rparr>\<rparr>)
   \<and> fst (get_strategy_performance sample_isoformat ''ursus_momentum_v1'' 7
          (snd (log_strategy_metrics sample_str sample_metric
             (sample_logger_keyed ''strategy_id'' ''timestamp'')))) = Inr (PList [])
   \<and> fst (log_strategy_metrics sample_str sample_metric
          (sample_logger_keyed ''StrategyId'' ''Timestamp'')) = False
   \<and> fst (get_strategy_performance sample_isoformat ''ursus_momentum_v1'' 7
          (snd (log_strategy_metrics sample_str sample_metric
             (sample_logger_keyed ''StrategyId'' ''Timestamp'')))) = Inr (PList [])"
proof -
  have e: "rows (strategy_metrics_table (sample_logger_keyed hk rk)) = []" for hk rk
    by (simp add: sample_logger_keyed_def empty_table_def)
  have a: "log_strategy_metrics sample_str sample_metric (sample_logger_keyed ''strategy_id'' ''timestamp'')
     = (True, (sample_logger_keyed ''strategy_id'' ''timestamp'')
         \<lparr>strategy_metrics_table := (empty_table ''strategy_id'' (Some ''timestamp''))\<lparr>
            rows := [[(''strategy_id'', PStr ''ursus_momentum_v1''),
              (''timestamp'', PStr ''2025-07-08T12:00:00+00:00''),
              (''win_rate'', PDecimal ''0.68''), (''total_trades'', PInt 45),
              (''profit_loss'', PDecimal ''2750.5''), (''sharpe_ratio'', PDecimal ''1.85''),
              (''max_drawdown'', PDecimal ''0.12''), (''current_positions'', PInt 3),
              (''avg_hold_time'', PDecimal ''4.5'')]] \<rparr>\<rparr>)"
    by (simp add: log_strategy_metrics_def sample_metric_def sample_logger_keyed_def
        sample_logger_def init_def empty_table_def request_def serializes_def wire_item_def
        sample_number_def round_trip_def asdict_StrategyMetric_def
        put_item_def has_key_def upsert_def sample_str_def)
  have c: "fst (log_strategy_metrics sample_str sample_metric
          (sample_logger_keyed ''StrategyId'' ''Timestamp'')) = False"
    by (simp add: log_strategy_metrics_def sample_metric_def sample_logger_keyed_def
        sample_logger_def init_def empty_table_def request_def serializes_def wire_item_def
        sample_number_def round_trip_def asdict_StrategyMetric_def
        put_item_def has_key_def upsert_def sample_str_def)
  show ?thesis
    using a c
      logged_metrics_never_returned [OF e [of "''strategy_id''" "''timestamp''"],
        where isoformat = sample_isoformat and sid = "''ursus_momentum_v1''" and days = 7
          and fstr = sample_str and ms = "[sample_metric]"]
      logged_metrics_never_returned [OF e [of "''StrategyId''" "''Timestamp''"],
        where isoformat = sample_isoformat and sid = "''ursus_momentum_v1''" and days = 7
          and fstr = sample_str and ms = "[sample_metric]"]
    by simp
qed

section \<open>Batch logging\<close>

lemma round_trip_sent: "sent (snd (round_trip s)) = sent s"
  by (simp add: round_trip_def split: list.splits)

lemma request_sent: "sent (snd (request t vs s)) = sent s"
  by (simp add: request_def round_trip_sent)

lemma bw_flush_sent:
  "bw_flush buf s = (r, buf', s') \<Longrightarrow>
     sent s' = sent s @ [min 25 (length buf)] \<and> buf' = drop 25 buf"
  by (auto simp: bw_flush_def Let_def case_prod_beta request_sent split: sum.splits)

lemma inner_short:
  "length buf + length batch < 25 \<Longrightarrow>
   batch_log_trades_inner fstr batch buf s c =
     (Inr (), buf @ map (\<lambda>t. convert_decimals fstr (asdict_TradeLog t)) batch, s, c + length batch)"
  by (induction batch arbitrary: buf c) (simp_all add: bw_put_item_def)

lemma inner_full:
  "length buf + length batch = 25 \<Longrightarrow> batch \<noteq> [] \<Longrightarrow>
   batch_log_trades_inner fstr batch buf s c = (r, buf', s', c') \<Longrightarrow>
   sent s' = sent s @ [25] \<and> buf' = []"
proof (induction batch arbitrary: buf c)
  case Nil
  then show ?case by simp
next
  case (Cons t batch)
  let ?item = "convert_decimals fstr (asdict_TradeLog t)"
  show ?case
  proof (cases "batch = []")
    case True
    with Cons.prems(1) have len: "length (buf @ [?item]) = 25" by simp
    obtain r1 buf1 s1 where f: "bw_flush (buf @ [?item]) s = (r1, buf1, s1)"
      by (cases "bw_flush (buf @ [?item]) s")
    from bw_flush_sent[OF f] len have s1: "sent s1 = sent s @ [25]" "buf1 = []" by simp_all
    have p: "bw_put_item buf ?item s = (r1, buf1, s1)"
      using f len by (simp add: bw_put_item_def)
    from Cons.prems(3) True p have "s' = s1 \<and> buf' = buf1"
      by (cases r1) simp_all
    with s1 show ?thesis by simp
  next
    case False
    with Cons.prems(1) have short: "\<not> 25 \<le> length (buf @ [?item])"
      by (cases batch) auto
    then have p: "bw_put_item buf ?item s = (Inr (), buf @ [?item], s)"
      by (simp add: bw_put_item_def)
    from Cons.prems(3) p have i:
      "batch_log_trades_inner fstr batch (buf @ [?item]) s (c + 1) = (r, buf', s', c')"
      by simp
    from Cons.prems(1) have l: "length (buf @ [?item]) + length batch = 25" by simp
    from Cons.IH[OF l False i] show ?thesis .
  qed
qed

lemma bw_exit_Nil: "bw_exit [] s = (Inr (), s)"
  by (simp add: bw_exit.simps[of "[]" s])

lemma bw_exit_once:
  assumes "buf \<noteq> []" "length buf \<le> 25" "bw_flush buf s = (r1, buf1, s1)"
  shows "snd (bw_exit buf s) = s1"
proof -
  from bw_flush_sent[OF assms(3)] assms(2) have b: "buf1 = []" by simp
  show ?thesis
  proof (cases r1)
    case (Inl e)
    with assms show ?thesis by (simp add: bw_exit.simps[of buf s])
  next
    case (Inr u)
    with assms b show ?thesis by (simp add: bw_exit.simps[of buf s] bw_exit_Nil)
  qed
qed

lemma batch_sent:
  assumes "batch \<noteq> []" "length batch \<le> 25"
    and "batch_log_trades_batch fstr batch s c = (c', s')"
  shows "sent s' = sent s @ [length batch]"
proof (cases "length batch < 25")
  case True
  let ?items = "map (\<lambda>t. convert_decimals fstr (asdict_TradeLog t)) batch"
  from True have i: "batch_log_trades_inner fstr batch [] s c = (Inr (), ?items, s, c + length batch)"
    using inner_short[of "[]" batch fstr s c] by simp
  obtain r1 buf1 s1 where f: "bw_flush ?items s = (r1, buf1, s1)" by (cases "bw_flush ?items s")
  from bw_flush_sent[OF f] True have s1: "sent s1 = sent s @ [length batch]" by simp
  from assms(1) have ne: "?items \<noteq> []" by simp
  from assms(2) have le: "length ?items \<le> 25" by simp
  note ex = bw_exit_once[OF ne le f]
  from assms(3) i have "s' = snd (bw_exit ?items s)"
    by (simp add: batch_log_trades_batch_def case_prod_beta)
  with ex s1 show ?thesis by simp
next
  case False
  with assms(2) have len: "length batch = 25" by simp
  obtain r buf s1 c1 where i: "batch_log_trades_inner fstr batch [] s c = (r, buf, s1, c1)"
    by (cases "batch_log_trades_inner fstr batch [] s c")
  have l: "length ([]::'a pyval list) + length batch = 25" using len by simp
  from inner_full[OF l assms(1) i] have s1: "sent s1 = sent s @ [25]" "buf = []" by simp_all
  from assms(3) i s1 have "s' = s1"
    by (simp add: batch_log_trades_batch_def bw_exit_Nil)
  with s1 len show ?thesis by simp
qed

lemma chunk_count: "0 < (n::nat) \<Longrightarrow> (n - 25 + 24) div 25 + 1 = (n + 24) div 25"
proof (cases "n < 25")
  case True
  assume "0 < n"
  with True have "(n + 24) div 25 = 1" by simp
  with True show ?thesis by simp
next
  case False
  then obtain m where m: "n = m + 25" by (metis add.commute le_Suc_ex not_less)
  show ?thesis unfolding m by simp
qed

lemma outer_sent:
  "batch_log_trades_outer fstr 25 trades s c = (c', s') \<Longrightarrow>
   \<exists>ks. sent s' = sent s @ ks \<and> length ks = (length trades + 24) div 25
     \<and> list_all (\<lambda>k. 0 < k \<and> k \<le> 25) ks \<and> sum_list ks = length trades"
proof (induction "length trades" arbitrary: trades s c rule: less_induct)
  case less
  show ?case
  proof (cases "trades = []")
    case True
    from less.prems have "s' = s"
      unfolding True by (simp add: batch_log_trades_outer.simps[of fstr 25 "[]"])
    with True show ?thesis by simp
  next
    case False
    obtain c1 s1 where b: "batch_log_trades_batch fstr (take 25 trades) s c = (c1, s1)"
      by (cases "batch_log_trades_batch fstr (take 25 trades) s c")
    from False have tk: "take 25 trades \<noteq> []" "length (take 25 trades) \<le> 25" by simp_all
    from batch_sent[OF tk b] have s1: "sent s1 = sent s @ [min (length trades) 25]" by simp
    have o: "batch_log_trades_outer fstr 25 (drop 25 trades) s1 c1 = (c', s')"
      using less.prems False b by (simp add: batch_log_trades_outer.simps[of fstr 25 trades])
    from False have sh: "length (drop 25 trades) < length trades" by simp
    from less.hyps[OF sh o] obtain ks where ks: "sent s' = sent s1 @ ks"
      "length ks = (length (drop 25 trades) + 24) div 25"
      "list_all (\<lambda>k. 0 < k \<and> k \<le> 25) ks" "sum_list ks = length (drop 25 trades)"
      by blast
    let ?ks = "min (length trades) 25 # ks"
    from False have pos: "0 < length trades" by simp
    note ar = chunk_count[OF pos]
    have 1: "length ?ks = (length trades + 24) div 25" using ks(2) ar by simp
    have 2: "sent s' = sent s @ ?ks" using ks(1) s1 by simp
    have 3: "list_all (\<lambda>k. 0 < k \<and> k \<le> 25) ?ks" using ks(3) pos by simp
    have 4: "sum_list ?ks = length trades" using ks(4) by simp
    from 1 2 3 4 show ?thesis by blast
  qed
qed

lemma batch_log_trades_requests:
  assumes "batch_size s = 25"
  shows "\<exists>n s' ks. batch_log_trades fstr trades s = (Inr n, s') \<and> sent s' = sent s @ ks
     \<and> length ks = (length trades + 24) div 25
     \<and> list_all (\<lambda>k. 0 < k \<and> k \<le> 25) ks \<and> sum_list ks = length trades"
proof -
  obtain n s' where o: "batch_log_trades_outer fstr 25 trades s 0 = (n, s')"
    by (cases "batch_log_trades_outer fstr 25 trades s 0")
  with assms have "batch_log_trades fstr trades s = (Inr n, s')"
    by (simp add: batch_log_trades_def)
  with outer_sent[OF o] show ?thesis by blast
qed

text \<open>
  C4. \<open>batch_log_trades\<close> is to return the number of trades that were written. The code
  counts a trade when it is handed to the batch writer, before the request is sent: with
  the store down, one trade gives the count 1 and an empty table; two trades with the same
  key, which the store refuses as one request, give the count 2 and an empty table. (The
  requests are as the claim says, \<open>ceil(n/25)\<close> of at most 25 items:
  \<open>batch_log_trades_requests\<close>.)
\<close>

theorem batch_log_trades_counts_unwritten_trades:
  "batch_log_trades sample_str [sample_trade] (sample_logger [True])
     = (Inr 1, (sample_logger [])\<lparr>sent := [1]\<rparr>)
   \<and> batch_log_trades sample_str [sample_trade, sample_trade] (sample_logger [])
     = (Inr 2, (sample_logger [])\<lparr>sent := [2]\<rparr>)
   \<and> rows (trade_logs_table ((sample_logger [])\<lparr>sent := [1]\<rparr>)) = []
   \<and> rows (trade_logs_table ((sample_logger [])\<lparr>sent := [2]\<rparr>)) = []"
proof -
  have a: "batch_log_trades sample_str [sample_trade] (sample_logger [True])
     = (Inr 1, (sample_logger [])\<lparr>sent := [1]\<rparr>)"
    by (simp add: batch_log_trades_def batch_log_trades_outer.simps batch_log_trades_batch_def
        bw_exit.simps bw_put_item_def bw_flush_def batch_write_item_def item_of_def
        request_def serializes_def wire_item_def sample_number_def
        sample_logger_def init_def round_trip_def asdict_TradeLog_def sample_trade_def
        sample_str_def empty_table_def)
  have b: "batch_log_trades sample_str [sample_trade, sample_trade] (sample_logger [])
     = (Inr 2, (sample_logger [])\<lparr>sent := [2]\<rparr>)"
    by (simp add: batch_log_trades_def batch_log_trades_outer.simps batch_log_trades_batch_def
        bw_exit.simps bw_put_item_def bw_flush_def batch_write_item_def item_of_def
        request_def serializes_def wire_item_def sample_number_def
        sample_logger_def init_def round_trip_def asdict_TradeLog_def sample_trade_def
        sample_str_def empty_table_def has_key_def key_of_def)
  have c: "rows (trade_logs_table ((sample_logger [])\<lparr>sent := k\<rparr>)) = []" for k
    by (simp add: sample_logger_def init_def empty_table_def)
  show ?thesis using a b c by simp
qed

end
